theory Spec2Isabelle
  imports Main "HOL-Library.Sublist" "HOL-Library.AList"
begin

section \<open>Common model of the Python code\<close>

text \<open>
  Exceptions of the Python code are values.  Every constructor stands for a class derived
  from Python's \<open>Exception\<close> (the classes a clause \<open>except Exception\<close> catches).
\<close>

datatype py_error =
    ValueError string
  | AssertionError string
  | NotImplementedError string
  | RuntimeError string
  | KeyError string
  | TypeError string
  | IndexError
  | OSError nat

text \<open>
  The task and pilot states of \<open>radical.pilot.states\<close> (the module is not part of the
  sources at hand; only the names the code below refers to are declared).
\<close>

datatype state =
    AGENT_STAGING_INPUT_PENDING
  | AGENT_STAGING_INPUT
  | AGENT_SCHEDULING_PENDING
  | TMGR_STAGING_OUTPUT_PENDING
  | PMGR_ACTIVE
  | DONE
  | FAILED
  | CANCELED

text \<open>Python truthiness of an optional string: \<open>None\<close> and \<open>''\<close> are false.\<close>

fun truthy :: "string option \<Rightarrow> bool" where
  "truthy None = False"
| "truthy (Some s) = (s \<noteq> [])"


section \<open>Agent-0: \<open>agent/agent_0.py\<close>\<close>

subsection \<open>The mailbox\<close>

text \<open>
  Values stored in mailbox documents and sent in messages are JSON-like Python values.
\<close>

datatype json = JNull | JStr string | JList "json list" | JDict "(string \<times> json) list"

text \<open>
  Python's \<open>v[key]\<close> for a string key: only a dict can be subscripted with a string, and
  a missing key raises \<open>KeyError\<close>.
\<close>

fun subscript :: "json \<Rightarrow> string \<Rightarrow> py_error + json" where
  "subscript (JDict kvs) k = (case map_of kvs k of None \<Rightarrow> Inl (KeyError k) | Some v \<Rightarrow> Inr v)"
| "subscript JNull k =
     Inl (TypeError (CHR 0x27 # ''NoneType'' @ CHR 0x27 # '' object is not subscriptable''))"
| "subscript (JStr s) k = Inl (TypeError ''string indices must be integers'')"
| "subscript (JList vs) k = Inl (TypeError ''list indices must be integers or slices'')"

record cmd_spec =
  cs_cmd :: string
  cs_arg :: json

text \<open>
  One document of the mailbox collection \<open>self._dbs._c\<close>.  Pilot and unit documents
  live in the same collection; \<open>d_cmd\<close> is \<open>None\<close> where the document has no key
  \<open>cmd\<close>, and \<open>d_environment\<close> is \<open>None\<close> where the unit description has no
  environment (\<open>description.get('environment')\<close> returns \<open>None\<close>).
\<close>

record doc =
  d_type :: string
  d_uid :: string
  d_pilot :: string
  d_control :: string
  d_cmd :: "cmd_spec list option"
  d_states :: "string list"
  d_state :: string
  d_environment :: "(string \<times> string) list option"

text \<open>The queries and updates the agent sends: conjunctions of conditions on fields.\<close>

datatype cond =
    TypeIs string
  | UidIs string
  | UidIn "string list"
  | PilotIs string
  | ControlIs string

datatype upd = SetCmd "cmd_spec list" | SetControl string

datatype db_op =
    OpFindAndModify "cond list" upd
  | OpCount "cond list"
  | OpFind "cond list"
  | OpUpdateMulti "cond list" upd

fun holds :: "doc \<Rightarrow> cond \<Rightarrow> bool" where
  "holds d (TypeIs t) = (d_type d = t)"
| "holds d (UidIs u) = (d_uid d = u)"
| "holds d (UidIn us) = (d_uid d \<in> set us)"
| "holds d (PilotIs p) = (d_pilot d = p)"
| "holds d (ControlIs c) = (d_control d = c)"

definition matches :: "cond list \<Rightarrow> doc \<Rightarrow> bool" where
  "matches q d = list_all (holds d) q"

fun apply_upd :: "upd \<Rightarrow> doc \<Rightarrow> doc" where
  "apply_upd (SetCmd cs) d = d\<lparr>d_cmd := Some cs\<rparr>"
| "apply_upd (SetControl c) d = d\<lparr>d_control := c\<rparr>"

text \<open>\<open>find\<close>: the documents that match, in collection order.\<close>

definition find_docs :: "cond list \<Rightarrow> doc list \<Rightarrow> doc list" where
  "find_docs q db = filter (matches q) db"

text \<open>
  \<open>find_and_modify\<close>: one atomic operation that updates the first matching document and
  returns it as it was before the update, or \<open>None\<close> when none matches.
\<close>

fun find_and_modify :: "cond list \<Rightarrow> upd \<Rightarrow> doc list \<Rightarrow> doc option \<times> doc list" where
  "find_and_modify q u [] = (None, [])"
| "find_and_modify q u (d # ds) =
     (if matches q d then (Some d, apply_upd u d # ds)
      else (case find_and_modify q u ds of (r, ds') \<Rightarrow> (r, d # ds')))"

text \<open>\<open>update(..., multi=True)\<close>: every matching document is updated.\<close>

definition update_multi :: "cond list \<Rightarrow> upd \<Rightarrow> doc list \<Rightarrow> doc list" where
  "update_multi q u db = map (\<lambda>d. if matches q d then apply_upd u d else d) db"

subsection \<open>State of Agent-0\<close>

record ctrl_msg =
  m_cmd :: string
  m_arg :: json

text \<open>
  The part of Agent-0 the callbacks read and write: its pilot id and pilot manager id, the
  recorded final cause, whether \<open>self.stop()\<close> was called, the heartbeat time stamps
  (\<open>self._hb.beat(uid)\<close> stores the current time for \<open>uid\<close>), the messages published
  (channel and message), the mailbox, the operations sent to the mailbox in order, and the
  bulks of units handed to \<open>self.advance\<close>.  Logging and profiling are left out.
\<close>

record agent0 =
  a_pid :: string
  a_pmgr :: string
  a_final_cause :: "string option"
  a_stopped :: bool
  a_hb :: "(string \<times> nat) list"
  a_published :: "(string \<times> ctrl_msg) list"
  a_db :: "doc list"
  a_db_ops :: "db_op list"
  a_advanced :: "doc list list"

text \<open>
  The name of the control channel, a constant of \<open>radical.pilot.constants\<close> (the module
  is not part of the sources at hand).
\<close>

definition CONTROL_PUBSUB :: string where
  "CONTROL_PUBSUB = ''control_pubsub''"

definition publish :: "string \<Rightarrow> ctrl_msg \<Rightarrow> agent0 \<Rightarrow> agent0" where
  "publish channel msg a = a\<lparr>a_published := a_published a @ [(channel, msg)]\<rparr>"

definition beat :: "string \<Rightarrow> nat \<Rightarrow> agent0 \<Rightarrow> agent0" where
  "beat uid now a = a\<lparr>a_hb := AList.update uid now (a_hb a)\<rparr>"

subsection \<open>Commands (\<open>Agent_0._check_commands\<close>)\<close>

text \<open>
  The first test of the chain, \<open>cmd == 'heartbeat' and arg['pmgr'] == self._pmgr\<close>:
  the subscript is evaluated only for the verb \<open>heartbeat\<close> and may raise.
\<close>

definition is_own_heartbeat :: "agent0 \<Rightarrow> cmd_spec \<Rightarrow> py_error + bool" where
  "is_own_heartbeat a spec =
     (if cs_cmd spec = ''heartbeat'' then
        (case subscript (cs_arg spec) ''pmgr'' of
           Inl e \<Rightarrow> Inl e
         | Inr v \<Rightarrow> Inr (v = JStr (a_pmgr a)))
      else Inr False)"

text \<open>
  The loop over the drained commands.  The result is the value returned (or the exception
  raised) together with the agent state reached; \<open>now\<close> is the reading of the clock.
\<close>

fun run_cmds :: "nat \<Rightarrow> cmd_spec list \<Rightarrow> agent0 \<Rightarrow> (py_error + bool) \<times> agent0" where
  "run_cmds now [] a = (Inr True, a)"
| "run_cmds now (spec # rest) a =
     (case is_own_heartbeat a spec of
        Inl e \<Rightarrow> (Inl e, a)
      | Inr True \<Rightarrow> run_cmds now rest (beat (a_pmgr a) now a)
      | Inr False \<Rightarrow>
          if cs_cmd spec = ''cancel_pilot'' then
            (Inr False,
             (publish CONTROL_PUBSUB \<lparr>m_cmd = ''terminate'', m_arg = JNull\<rparr> a)
               \<lparr>a_final_cause := Some ''cancel'', a_stopped := True\<rparr>)
          else if cs_cmd spec = ''cancel_units'' then
            run_cmds now rest
              (publish CONTROL_PUBSUB \<lparr>m_cmd = ''cancel_units'', m_arg = cs_arg spec\<rparr> a)
          else run_cmds now rest a)"

definition check_commands :: "nat \<Rightarrow> agent0 \<Rightarrow> (py_error + bool) \<times> agent0" where
  "check_commands now a =
     (let q = [UidIs (a_pid a)];
          u = SetCmd [];
          (retdoc, db') = find_and_modify q u (a_db a);
          a1 = a\<lparr>a_db := db', a_db_ops := a_db_ops a @ [OpFindAndModify q u]\<rparr>
      in case retdoc of
           None \<Rightarrow> (Inr True, a1)
         | Some d \<Rightarrow> run_cmds now (case d_cmd d of None \<Rightarrow> [] | Some cs \<Rightarrow> cs) a1)"

subsection \<open>Pulling units (\<open>Agent_0._check_units_cb\<close>)\<close>

text \<open>
  What the loop over \<open>unit_list\<close> does to one unit: the environment of the agent config
  (\<open>None\<close> when the config has no key \<open>unit_environment\<close>) is merged into the unit's,
  the state is recomputed from the state history and \<open>control\<close> is set.  The function
  \<open>_unit_state_collapse\<close> of \<open>radical.pilot.states\<close> is a parameter.
\<close>

definition merge_env ::
  "(string \<times> string) list \<Rightarrow> (string \<times> string) list option \<Rightarrow> (string \<times> string) list" where
  "merge_env cfg_env env =
     fold (\<lambda>(k, v) e. AList.update k v e) cfg_env
       (case env of None \<Rightarrow> [] | Some e \<Rightarrow> e)"

definition prepare_unit ::
  "(string list \<Rightarrow> string) \<Rightarrow> (string \<times> string) list option \<Rightarrow> doc \<Rightarrow> doc" where
  "prepare_unit collapse unit_environment unit =
     (let u1 = (case unit_environment of
                  None \<Rightarrow> unit
                | Some cfg_env \<Rightarrow>
                    unit\<lparr>d_environment := Some (merge_env cfg_env (d_environment unit))\<rparr>)
      in u1\<lparr>d_state := collapse (d_states u1), d_control := ''agent''\<rparr>)"

definition pending_query :: "string \<Rightarrow> cond list" where
  "pending_query pid = [TypeIs ''unit'', PilotIs pid, ControlIs ''agent_pending'']"

text \<open>
  One pull cycle.  \<open>find\<close> builds a cursor; \<open>unit_cursor.count()\<close> and
  \<open>list(unit_cursor)\<close> each query the mailbox, and the update follows them.
\<close>

definition check_units_cb ::
  "(string list \<Rightarrow> string) \<Rightarrow> (string \<times> string) list option \<Rightarrow> agent0 \<Rightarrow> bool \<times> agent0" where
  "check_units_cb collapse unit_environment a =
     (let q = pending_query (a_pid a);
          a1 = a\<lparr>a_db_ops := a_db_ops a @ [OpCount q]\<rparr>
      in if length (find_docs q (a_db a1)) = 0 then (True, a1)
         else
           let unit_list = find_docs q (a_db a1);
               a2 = a1\<lparr>a_db_ops := a_db_ops a1 @ [OpFind q]\<rparr>;
               unit_uids = map d_uid unit_list;
               q' = [TypeIs ''unit'', UidIn unit_uids];
               u = SetControl ''agent'';
               a3 = a2\<lparr>a_db := update_multi q' u (a_db a2),
                       a_db_ops := a_db_ops a2 @ [OpUpdateMulti q' u]\<rparr>;
               units = map (prepare_unit collapse unit_environment) unit_list
           in (True, a3\<lparr>a_advanced := a_advanced a3 @ [units]\<rparr>))"

subsection \<open>Final pilot state (\<open>Agent_0.finalize\<close>)\<close>

text \<open>
  \<open>finalize\<close> selects the final pilot state from \<open>self._final_cause\<close>, which is
  \<open>None\<close> after construction and a string once a cause was recorded.  The chain of
  comparisons is kept in the order of the source.
\<close>

definition finalize_state :: "string option \<Rightarrow> state" where
  "finalize_state final_cause =
     (if final_cause = Some ''timeout'' then DONE
      else if final_cause = Some ''cancel'' then CANCELED
      else if final_cause = Some ''sys.exit'' then CANCELED
      else FAILED)"


subsection \<open>Example inputs\<close>

text \<open>Concrete mailbox documents and an agent state, used to run the model.\<close>

definition pilot_doc :: "cmd_spec list \<Rightarrow> doc" where
  "pilot_doc cs = \<lparr>d_type = ''pilot'', d_uid = ''pilot.0000'', d_pilot = [], d_control = [],
     d_cmd = Some cs, d_states = [], d_state = ''PMGR_ACTIVE'', d_environment = None\<rparr>"


definition agent_init :: "doc list \<Rightarrow> agent0" where
  "agent_init db = \<lparr>a_pid = ''pilot.0000'', a_pmgr = ''pmgr.0000'', a_final_cause = None,
     a_stopped = False, a_hb = [], a_published = [], a_db = db, a_db_ops = [],
     a_advanced = []\<rparr>"

definition cmd_of :: "string \<Rightarrow> json \<Rightarrow> cmd_spec" where
  "cmd_of c arg = \<lparr>cs_cmd = c, cs_arg = arg\<rparr>"


section \<open>Staging input: \<open>agent/staging_input/default.py\<close>\<close>

subsection \<open>Strings and paths\<close>

text \<open>
  \<open>str.strip()\<close> removes white space at both ends.  A character of the model is a code
  point below 256; of these Python counts as white space the codes 9 to 13, 28 to 32, 133
  (U+0085) and 160 (U+00A0).
\<close>

definition isspace :: "char \<Rightarrow> bool" where
  "isspace c =
     (let n = (of_char c :: nat)
      in (9 \<le> n \<and> n \<le> 13) \<or> (28 \<le> n \<and> n \<le> 32) \<or> n = 133 \<or> n = 160)"

definition strip :: "string \<Rightarrow> string" where
  "strip s = rev (dropWhile isspace (rev (dropWhile isspace s)))"

text \<open>\<open>os.path.basename\<close>, \<open>os.path.dirname\<close> and \<open>os.path.join\<close> of \<open>posixpath\<close>.\<close>

definition basename :: "string \<Rightarrow> string" where
  "basename p = rev (takeWhile (\<lambda>c. c \<noteq> CHR ''/'') (rev p))"

definition dirname :: "string \<Rightarrow> string" where
  "dirname p =
     (let head = rev (dropWhile (\<lambda>c. c \<noteq> CHR ''/'') (rev p))
      in if head \<noteq> [] \<and> \<not> list_all (\<lambda>c. c = CHR ''/'') head
         then rev (dropWhile (\<lambda>c. c = CHR ''/'') (rev head))
         else head)"

definition path_join :: "string \<Rightarrow> string \<Rightarrow> string" where
  "path_join a b =
     (if b \<noteq> [] \<and> hd b = CHR ''/'' then b
      else if a = [] \<or> last a = CHR ''/'' then a @ b
      else a @ ''/'' @ b)"

subsection \<open>Tasks and staging directives\<close>

datatype action = LINK | COPY | MOVE | TARBALL | TRANSFER

text \<open>A URL as \<open>ru.Url\<close> holds it; only these three parts are read or written here.\<close>

record url =
  schema :: string
  host :: string
  path :: string

record staging_directive =
  sd_action :: action
  sd_uid :: string
  sd_source :: string
  sd_target :: "string option"

text \<open>
  The task dict: \<open>t_input_staging\<close> is \<open>None\<close> where the description has no key
  \<open>input_staging\<close>; the sandboxes are held as the URLs that \<open>ru.Url\<close> parses from the
  strings of the dict.  The last three fields are the ones the component writes on
  failure; \<open>t_exception\<close> and \<open>t_exception_detail\<close> keep the exception value itself in
  place of its printed form and of its trace.
\<close>

record task =
  t_uid :: string
  t_input_staging :: "staging_directive list option"
  t_task_sandbox :: url
  t_pilot_sandbox :: url
  t_session_sandbox :: url
  t_resource_sandbox :: url
  t_endpoint_fs :: url
  t_target_state :: "state option"
  t_exception :: "py_error option"
  t_exception_detail :: "py_error option"

text \<open>The context \<open>complete_url\<close> resolves a URL in.\<close>

record url_context =
  c_pwd :: url
  c_task :: url
  c_pilot :: url
  c_session :: url
  c_resource :: url
  c_endpoint :: url

subsection \<open>The file system and the component's effects\<close>

text \<open>
  The file system is a parameter: a state \<open>'fs\<close> and the operations the component calls
  on it.  An operation returns the exception it raises, if any, and the file system it
  leaves (an operation that fails may have changed it).  \<open>fs_untar tarball dir\<close> stands
  for \<open>tarfile.open(tarball)\<close>, \<open>extractall(path=dir)\<close> and \<open>close()\<close>.
  \<open>complete_url\<close> of \<open>radical.pilot.staging_directives\<close> is not part of the sources at
  hand and is a parameter too.
\<close>

record 'fs sysops =
  fs_exists :: "string \<Rightarrow> 'fs \<Rightarrow> bool"
  fs_isdir :: "string \<Rightarrow> 'fs \<Rightarrow> bool"
  fs_isfile :: "string \<Rightarrow> 'fs \<Rightarrow> bool"
  fs_rec_makedir :: "string \<Rightarrow> 'fs \<Rightarrow> py_error option \<times> 'fs"
  fs_copytree :: "string \<Rightarrow> string \<Rightarrow> 'fs \<Rightarrow> py_error option \<times> 'fs"
  fs_copy :: "string \<Rightarrow> string \<Rightarrow> 'fs \<Rightarrow> py_error option \<times> 'fs"
  fs_symlink :: "string \<Rightarrow> string \<Rightarrow> 'fs \<Rightarrow> py_error option \<times> 'fs"
  fs_move :: "string \<Rightarrow> string \<Rightarrow> 'fs \<Rightarrow> py_error option \<times> 'fs"
  fs_untar :: "string \<Rightarrow> string \<Rightarrow> 'fs \<Rightarrow> py_error option \<times> 'fs"
  complete_url :: "string \<Rightarrow> url_context \<Rightarrow> py_error + url"

datatype fs_call =
    Exists string
  | IsDir string
  | IsFile string
  | RecMakedir string
  | CopyTree string string
  | Copy string string
  | Symlink string string
  | Move string string
  | Untar string string

text \<open>
  What the staging of directives acts on: the file system, the file-system calls made so
  far, and the profiler events (event, task uid, directive uid).
\<close>

record 'fs world =
  w_fs :: 'fs
  w_calls :: "fs_call list"
  w_prof :: "(string \<times> string \<times> string) list"

definition call_op ::
  "fs_call \<Rightarrow> ('fs \<Rightarrow> py_error option \<times> 'fs) \<Rightarrow> 'fs world \<Rightarrow> py_error option \<times> 'fs world" where
  "call_op c f w =
     (case f (w_fs w) of (r, fs') \<Rightarrow> (r, w\<lparr>w_fs := fs', w_calls := w_calls w @ [c]\<rparr>))"

definition query :: "fs_call \<Rightarrow> ('fs \<Rightarrow> bool) \<Rightarrow> 'fs world \<Rightarrow> bool \<times> 'fs world" where
  "query c f w = (f (w_fs w), w\<lparr>w_calls := w_calls w @ [c]\<rparr>)"

definition prof :: "string \<Rightarrow> string \<Rightarrow> string \<Rightarrow> 'fs world \<Rightarrow> 'fs world" where
  "prof event uid msg w = w\<lparr>w_prof := w_prof w @ [(event, uid, msg)]\<rparr>"

definition ENOTDIR :: nat where
  "ENOTDIR = 20"


subsection \<open>Enacting the directives of a task (\<open>Default._handle_task\<close>)\<close>

text \<open>
  The rewriting of the target before it is resolved: an empty target becomes
  \<open>task:///basename(src)\<close>, a target that exists and is a directory gets the base name of
  the source appended.  \<open>and\<close> evaluates \<open>isdir\<close> only where \<open>exists\<close> holds.
\<close>

definition normalize_target ::
  "'fs sysops \<Rightarrow> string \<Rightarrow> string option \<Rightarrow> 'fs world \<Rightarrow> string \<times> 'fs world" where
  "normalize_target ops src tgt w =
     (let tgt0 = (case tgt of None \<Rightarrow> [] | Some t \<Rightarrow> t)
      in if strip tgt0 = [] then (''task:///'' @ basename src, w)
         else
           (case query (Exists (strip tgt0)) (fs_exists ops (strip tgt0)) w of
              (False, w1) \<Rightarrow> (tgt0, w1)
            | (True, w1) \<Rightarrow>
                (case query (IsDir (strip tgt0)) (fs_isdir ops (strip tgt0)) w1 of
                   (False, w2) \<Rightarrow> (tgt0, w2)
                 | (True, w2) \<Rightarrow> (path_join tgt0 (basename src), w2))))"

text \<open>
  The chain \<open>if action == COPY ... elif ... TARBALL\<close>, in the order of the source, for
  the resolved source and target.
\<close>

definition enact ::
  "'fs sysops \<Rightarrow> string \<Rightarrow> string \<Rightarrow> action \<Rightarrow> url \<Rightarrow> url \<Rightarrow> 'fs world
     \<Rightarrow> py_error option \<times> 'fs world" where
  "enact ops uid did act src tgt w =
     (if act = COPY then
        (case call_op (CopyTree (path src) (path tgt)) (fs_copytree ops (path src) (path tgt)) w of
           (Some (OSError errno), w1) \<Rightarrow>
             if errno = ENOTDIR
             then call_op (Copy (path src) (path tgt)) (fs_copy ops (path src) (path tgt)) w1
             else (Some (OSError errno), w1)
         | (r, w1) \<Rightarrow> (r, w1))
      else if act = LINK then
        (case query (IsFile (path src)) (fs_isfile ops (path src)) w of
           (False, w1) \<Rightarrow>
             call_op (Symlink (path src) (path tgt)) (fs_symlink ops (path src) (path tgt)) w1
         | (True, w1) \<Rightarrow>
             (case query (IsDir (path tgt)) (fs_isdir ops (path tgt)) w1 of
                (False, w2) \<Rightarrow>
                  call_op (Symlink (path src) (path tgt))
                    (fs_symlink ops (path src) (path tgt)) w2
              | (True, w2) \<Rightarrow>
                  (let link = path tgt @ ''/'' @ basename (path src)
                   in call_op (Symlink (path src) link) (fs_symlink ops (path src) link) w2)))
      else if act = MOVE then
        call_op (Move (path src) (path tgt)) (fs_move ops (path src) (path tgt)) w
      else if act = TRANSFER then
        (Some (NotImplementedError ''unsupported transfer''), prof ''staging_in_fail'' uid did w)
      else if act = TARBALL then
        (let tarball = dirname (path tgt) @ ''/'' @ uid @ ''.tar''
         in call_op (Untar tarball ''/'') (fs_untar ops tarball ''/'') w)
      else (None, w))"

text \<open>
  One round of the loop over the actionable directives of a task.  The result is the
  exception raised, if any, and the world reached.
\<close>

definition handle_sd ::
  "'fs sysops \<Rightarrow> string \<Rightarrow> url \<Rightarrow> url_context \<Rightarrow> staging_directive \<Rightarrow> 'fs world
     \<Rightarrow> py_error option \<times> 'fs world" where
  "handle_sd ops uid task_sandbox ctx sd w =
     (let act = sd_action sd; did = sd_uid sd; src = sd_source sd; tgt = sd_target sd;
          w0 = prof ''staging_in_start'' uid did w
      in if act \<notin> set [COPY, LINK, MOVE] then (None, prof ''staging_in_skip'' uid did w0)
         else
           (case normalize_target ops src tgt w0 of (tgt1, w1) \<Rightarrow>
            (case complete_url ops src ctx of
               Inl e \<Rightarrow> (Some e, w1)
             | Inr srcu \<Rightarrow>
            (case complete_url ops tgt1 ctx of
               Inl e \<Rightarrow> (Some e, w1)
             | Inr tgtu \<Rightarrow>
                 if schema tgtu \<noteq> ''file''
                 then (Some (AssertionError ''staging tgt must be file://''), w1)
                 else if act \<in> set [COPY, LINK, MOVE] \<and> schema srcu \<noteq> ''file''
                 then (Some (AssertionError ''staging src expected as file://''), w1)
                 else
                   (case (if act \<noteq> TRANSFER \<and> dirname (path tgtu) \<noteq> path task_sandbox
                          then call_op (RecMakedir (dirname (path tgtu)))
                                 (fs_rec_makedir ops (dirname (path tgtu))) w1
                          else (None, w1)) of
                      (Some e, w2) \<Rightarrow> (Some e, w2)
                    | (None, w2) \<Rightarrow>
                        (case enact ops uid did act srcu tgtu w2 of
                           (Some e, w3) \<Rightarrow> (Some e, w3)
                         | (None, w3) \<Rightarrow> (None, prof ''staging_in_stop'' uid did w3)))))))"

fun handle_sds ::
  "'fs sysops \<Rightarrow> string \<Rightarrow> url \<Rightarrow> url_context \<Rightarrow> staging_directive list \<Rightarrow> 'fs world
     \<Rightarrow> py_error option \<times> 'fs world" where
  "handle_sds ops uid task_sandbox ctx [] w = (None, w)"
| "handle_sds ops uid task_sandbox ctx (sd # sds) w =
     (case handle_sd ops uid task_sandbox ctx sd w of
        (Some e, w') \<Rightarrow> (Some e, w')
      | (None, w') \<Rightarrow> handle_sds ops uid task_sandbox ctx sds w')"

text \<open>
  The state of the component: the world and the calls of \<open>self.advance\<close> made so far,
  each with the tasks it was given and the state it advances them to.
\<close>

type_synonym 'fs comp = "'fs world \<times> (task list \<times> state) list"

definition advance :: "task list \<Rightarrow> state \<Rightarrow> 'fs comp \<Rightarrow> 'fs comp" where
  "advance tasks st c = (fst c, snd c @ [(tasks, st)])"

definition localize :: "url \<Rightarrow> url" where
  "localize u = u\<lparr>schema := ''file'', host := ''localhost''\<rparr>"

definition handle_task ::
  "'fs sysops \<Rightarrow> task \<Rightarrow> staging_directive list \<Rightarrow> 'fs comp \<Rightarrow> py_error option \<times> 'fs comp" where
  "handle_task ops task actionables c =
     (let uid = t_uid task;
          task_sandbox = localize (t_task_sandbox task);
          ctx = \<lparr>c_pwd = task_sandbox,
                 c_task = task_sandbox,
                 c_pilot = localize (t_pilot_sandbox task),
                 c_session = localize (t_session_sandbox task),
                 c_resource = localize (t_resource_sandbox task),
                 c_endpoint = localize (t_endpoint_fs task)\<rparr>
      in case handle_sds ops uid task_sandbox ctx actionables (fst c) of
           (Some e, w') \<Rightarrow> (Some e, (w', snd c))
         | (None, w') \<Rightarrow> (None, advance [task] AGENT_SCHEDULING_PENDING (w', snd c)))"

subsection \<open>A bulk of tasks (\<open>Default._work\<close>)\<close>

definition actionables_of :: "task \<Rightarrow> staging_directive list" where
  "actionables_of task =
     filter (\<lambda>sd. sd_action sd \<in> set [LINK, COPY, MOVE, TARBALL])
       (case t_input_staging task of None \<Rightarrow> [] | Some sds \<Rightarrow> sds)"

text \<open>
  The tasks without a local directive, in the words of the specification: no input staging
  directive of the task has an action among \<open>LINK\<close>, \<open>COPY\<close>, \<open>MOVE\<close> and
  \<open>TARBALL\<close>.  This is not part of the code; the properties of \<open>_work\<close> are stated
  with it.
\<close>

definition no_local_directive :: "task \<Rightarrow> bool" where
  "no_local_directive task =
     (\<not> list_ex (\<lambda>sd. sd_action sd = LINK \<or> sd_action sd = COPY \<or> sd_action sd = MOVE \<or>
                         sd_action sd = TARBALL)
          (case t_input_staging task of None \<Rightarrow> [] | Some sds \<Rightarrow> sds))"

text \<open>The first loop: the tasks without and with actionable directives, in bulk order.\<close>

fun split_tasks :: "task list \<Rightarrow> task list \<times> (task \<times> staging_directive list) list" where
  "split_tasks [] = ([], [])"
| "split_tasks (task # tasks) =
     (case split_tasks tasks of (no_staging_tasks, staging_tasks) \<Rightarrow>
        if actionables_of task \<noteq> []
        then (no_staging_tasks, (task, actionables_of task) # staging_tasks)
        else (task # no_staging_tasks, staging_tasks))"

definition fail_task :: "py_error \<Rightarrow> task \<Rightarrow> task" where
  "fail_task e task =
     task\<lparr>t_target_state := Some FAILED, t_exception := Some e, t_exception_detail := Some e\<rparr>"

text \<open>The second loop, with its \<open>try\<close> and \<open>except Exception\<close> around each task.\<close>

fun work_staging ::
  "'fs sysops \<Rightarrow> (task \<times> staging_directive list) list \<Rightarrow> 'fs comp \<Rightarrow> 'fs comp" where
  "work_staging ops [] c = c"
| "work_staging ops ((task, actionables) # rest) c =
     (case handle_task ops task actionables c of
        (None, c') \<Rightarrow> work_staging ops rest c'
      | (Some e, c') \<Rightarrow>
          work_staging ops rest
            (advance [fail_task e task] TMGR_STAGING_OUTPUT_PENDING c'))"

definition work :: "'fs sysops \<Rightarrow> task list \<Rightarrow> 'fs comp \<Rightarrow> 'fs comp" where
  "work ops tasks c =
     (case split_tasks tasks of (no_staging_tasks, staging_tasks) \<Rightarrow>
        work_staging ops staging_tasks
          (if no_staging_tasks \<noteq> []
           then advance no_staging_tasks AGENT_SCHEDULING_PENDING c
           else c))"


subsection \<open>Example file system and tasks\<close>

text \<open>
  An instance of the parameters, used to run the model on examples: the file system is
  the list of the paths that exist, each marked as a directory or not; URLs are resolved
  for the forms \<open>task:///name\<close>, \<open>pilot:///name\<close> and absolute paths only.
\<close>

definition ex_insert :: "string \<Rightarrow> bool \<Rightarrow> (string \<times> bool) list \<Rightarrow> py_error option \<times> (string \<times> bool) list" where
  "ex_insert p d fs = (if map_of fs p = None then (None, (p, d) # fs) else (Some (OSError 17), fs))"

definition ex_complete_url :: "string \<Rightarrow> url_context \<Rightarrow> py_error + url" where
  "ex_complete_url s ctx =
     (if take 8 s = ''task:///'' then Inr ((c_task ctx)\<lparr>path := path (c_task ctx) @ ''/'' @ drop 8 s\<rparr>)
      else if take 9 s = ''pilot:///'' then Inr ((c_pilot ctx)\<lparr>path := path (c_pilot ctx) @ ''/'' @ drop 9 s\<rparr>)
      else if take 1 s = ''/'' then Inr \<lparr>schema = ''file'', host = ''localhost'', path = s\<rparr>
      else Inl (ValueError ''cannot expand url''))"

definition ex_ops :: "(string \<times> bool) list sysops" where
  "ex_ops =
     \<lparr>fs_exists = (\<lambda>p fs. map_of fs p \<noteq> None),
      fs_isdir = (\<lambda>p fs. map_of fs p = Some True),
      fs_isfile = (\<lambda>p fs. map_of fs p = Some False),
      fs_rec_makedir = (\<lambda>p fs. if map_of fs p = None then (None, (p, True) # fs) else (None, fs)),
      fs_copytree = (\<lambda>s d fs.
         case map_of fs s of
           None \<Rightarrow> (Some (OSError 2), fs)
         | Some False \<Rightarrow> (Some (OSError 20), fs)
         | Some True \<Rightarrow> ex_insert d True fs),
      fs_copy = (\<lambda>s d fs.
         if map_of fs s = Some False then (None, (d, False) # fs) else (Some (OSError 2), fs)),
      fs_symlink = (\<lambda>s d fs. ex_insert d False fs),
      fs_move = (\<lambda>s d fs.
         case map_of fs s of
           None \<Rightarrow> (Some (OSError 2), fs)
         | Some k \<Rightarrow> (None, (d, k) # filter (\<lambda>e. fst e \<noteq> s) fs)),
      fs_untar = (\<lambda>t d fs.
         if map_of fs t = Some False then (None, fs) else (Some (OSError 2), fs)),
      complete_url = ex_complete_url\<rparr>"

definition ex_url :: "string \<Rightarrow> url" where
  "ex_url p = \<lparr>schema = ''sftp'', host = ''login.example.org'', path = p\<rparr>"

definition ex_task :: "string \<Rightarrow> staging_directive list option \<Rightarrow> task" where
  "ex_task uid sds =
     \<lparr>t_uid = uid, t_input_staging = sds,
      t_task_sandbox = ex_url (''/sbox/pilot.0000/'' @ uid),
      t_pilot_sandbox = ex_url ''/sbox/pilot.0000'',
      t_session_sandbox = ex_url ''/sbox'',
      t_resource_sandbox = ex_url ''/sbox'',
      t_endpoint_fs = ex_url ''/'',
      t_target_state = None, t_exception = None, t_exception_detail = None\<rparr>"

definition ex_sd :: "action \<Rightarrow> string \<Rightarrow> string \<Rightarrow> staging_directive" where
  "ex_sd act src tgt = \<lparr>sd_action = act, sd_uid = ''sd.0000'', sd_source = src, sd_target = Some tgt\<rparr>"

definition ex_world :: "(string \<times> bool) list world" where
  "ex_world =
     \<lparr>w_fs = [(''/sbox/pilot.0000/task.0000.tar'', False), (''/data/in.dat'', False),
              (''/sbox/pilot.0000'', True)],
      w_calls = [], w_prof = []\<rparr>"


definition ex_t_fail :: task where
  "ex_t_fail = ex_task ''task.0000'' (Some [ex_sd COPY ''/data/missing'' ''task:///in.dat''])"

definition ex_t_none :: task where
  "ex_t_none = ex_task ''task.0001'' None"

definition ex_t_link :: task where
  "ex_t_link = ex_task ''task.0002'' (Some [ex_sd LINK ''/data/in.dat'' []])"

definition ex_t_tar :: task where
  "ex_t_tar = ex_task ''task.0000'' (Some [ex_sd TARBALL [] ''pilot:///task.0000''])"

definition ex_t_transfer :: task where
  "ex_t_transfer = ex_task ''task.0003'' (Some [ex_sd TRANSFER ''/data/in.dat'' []])"


section \<open>MPIExec launch method: \<open>agent/launch_method/mpiexec.py\<close>\<close>

subsection \<open>Strings\<close>

text \<open>\<open>str.lower()\<close> on one-byte characters, \<open>sep.join(xs)\<close>, and \<open>'%d'\<close> of an integer.\<close>

definition lower :: "string \<Rightarrow> string" where
  "lower s =
     map (\<lambda>c. let n = (of_char c :: nat) in if 65 \<le> n \<and> n \<le> 90 then char_of (n + 32) else c) s"

fun join :: "string \<Rightarrow> string list \<Rightarrow> string" where
  "join sep [] = []"
| "join sep [x] = x"
| "join sep (x # y # ys) = x @ sep @ join sep (y # ys)"

definition digit :: "nat \<Rightarrow> char" where
  "digit d = char_of (48 + d)"

function str_nat :: "nat \<Rightarrow> string" where
  "str_nat n = (if n < 10 then [digit n] else str_nat (n div 10) @ [digit (n mod 10)])"
  by pat_completeness auto
termination
  by (relation "measure id") auto

declare str_nat.simps [simp del]

definition str_int :: "int \<Rightarrow> string" where
  "str_int i = (if i < 0 then ''-'' @ str_nat (nat (- i)) else str_nat (nat i))"

definition newline :: string where
  "newline = [CHR 0x0A]"

subsection \<open>The launch method and its serialised form\<close>

text \<open>
  \<open>lm_info\<close> is the dict \<open>_init_from_scratch\<close> returns; \<open>mpiexec\<close> holds the attributes
  of the launch method object.  The MPI version and flavor come from \<open>_get_mpi_info\<close> of
  the base class and may be \<open>None\<close>.
\<close>

record lm_info =
  li_env :: "(string \<times> string) list"
  li_env_sh :: string
  li_command :: string
  li_mpt :: bool
  li_rsh :: bool
  li_ccmrun :: string
  li_dplace :: string
  li_omplace :: string
  li_mpi_version :: "string option"
  li_mpi_flavor :: "string option"

record mpiexec =
  lm_name :: string
  lm_env :: "(string \<times> string) list"
  lm_env_sh :: string
  lm_command :: string
  lm_mpt :: bool
  lm_rsh :: bool
  lm_ccmrun :: string
  lm_dplace :: string
  lm_omplace :: string
  lm_mpi_version :: "string option"
  lm_mpi_flavor :: "string option"

text \<open>
  What probing reads from the machine: \<open>ru.which\<close> (the first of the names found in the
  path, or \<open>None\<close>), \<open>ru.get_hostname\<close>, and \<open>_get_mpi_info\<close> of the base class, which
  is not part of the sources at hand.
\<close>

record probe =
  p_which :: "string list \<Rightarrow> string option"
  p_hostname :: string
  p_mpi_info :: "string \<Rightarrow> py_error + (string option \<times> string option)"

definition mpiexec_names :: "string list" where
  "mpiexec_names =
     [''mpiexec'', ''mpiexec.mpich'', ''mpiexec.hydra'', ''mpiexec.openmpi'',
      ''mpiexec-mpich-mp'', ''mpiexec-openmpi-mp'', ''mpiexec_mpt'']"

text \<open>
  \<open>lm_info[key] = ru.which(name)\<close> followed by \<open>assert lm_info[key]\<close>, done where the
  name of the launch method contains \<open>tag\<close>.
\<close>

definition probe_wrapper :: "probe \<Rightarrow> string \<Rightarrow> string \<Rightarrow> string \<Rightarrow> py_error + string" where
  "probe_wrapper pr name tag exe =
     (if sublist tag (lower name) then
        (if truthy (p_which pr [exe]) then Inr (the (p_which pr [exe]))
         else Inl (AssertionError []))
      else Inr [])"

definition init_from_scratch ::
  "string \<Rightarrow> probe \<Rightarrow> (string \<times> string) list \<Rightarrow> string \<Rightarrow> py_error + lm_info" where
  "init_from_scratch name pr env env_sh =
     (if \<not> truthy (p_which pr mpiexec_names)
      then Inl (ValueError ''mpiexec not found - cannot start MPI tasks'')
      else
        (case probe_wrapper pr name ''_ccmrun'' ''ccmrun'' of
           Inl e \<Rightarrow> Inl e
         | Inr ccmrun \<Rightarrow>
        (case probe_wrapper pr name ''_dplace'' ''dplace'' of
           Inl e \<Rightarrow> Inl e
         | Inr dplace \<Rightarrow>
        (case p_mpi_info pr (the (p_which pr mpiexec_names)) of
           Inl e \<Rightarrow> Inl e
         | Inr (mpi_version, mpi_flavor) \<Rightarrow>
             Inr \<lparr>li_env = env,
                  li_env_sh = env_sh,
                  li_command = the (p_which pr mpiexec_names),
                  li_mpt = (sublist ''_mpt'' (lower name) \<or> sublist ''cheyenne'' (p_hostname pr)),
                  li_rsh = sublist ''_rsh'' (lower name),
                  li_ccmrun = ccmrun,
                  li_dplace = dplace,
                  li_omplace = (if sublist ''cheyenne'' (p_hostname pr) then ''omplace'' else []),
                  li_mpi_version = mpi_version,
                  li_mpi_flavor = mpi_flavor\<rparr>))))"

definition init_from_info :: "mpiexec \<Rightarrow> lm_info \<Rightarrow> py_error + mpiexec" where
  "init_from_info self info =
     (if li_command info = [] then Inl (AssertionError [])
      else
        Inr (self\<lparr>lm_env := li_env info,
                  lm_env_sh := li_env_sh info,
                  lm_command := li_command info,
                  lm_mpt := li_mpt info,
                  lm_rsh := li_rsh info,
                  lm_dplace := li_dplace info,
                  lm_ccmrun := li_ccmrun info,
                  lm_mpi_version := li_mpi_version info,
                  lm_mpi_flavor := li_mpi_flavor info,
                  lm_omplace := (if li_omplace info = [] then [] else ''omplace'')\<rparr>))"

subsection \<open>Commands of the launch method\<close>

definition get_launcher_env :: "mpiexec \<Rightarrow> string list" where
  "get_launcher_env self =
     [''. $RP_PILOT_SANDBOX/'' @ lm_env_sh self] @
     (if lm_mpt self then [''export MPI_SHEPHERD=true''] else [])"

definition get_rank_cmd :: "mpiexec \<Rightarrow> string" where
  "get_rank_cmd self =
     ''test -z \"$MPI_RANK\"  || export RP_RANK=$MPI_RANK'' @ newline @
     ''test -z \"$PMIX_RANK\" || export RP_RANK=$PMIX_RANK'' @ newline @
     ''test -z \"$PMI_ID\"    || export RP_RANK=$PMI_ID'' @ newline @
     ''test -z \"$PMI_RANK\"  || export RP_RANK=$PMI_RANK'' @ newline @
     (if lm_mpt self
      then ''test -z \"$MPT_MPI_RANK\" || export RP_RANK=$MPT_MPI_RANK'' @ newline
      else [])"

record rank =
  rk_node_name :: string
  rk_core_map :: "int list list"

record lm_task =
  lt_uid :: string
  lt_ranks :: "rank list"
  lt_task_sandbox_path :: string

text \<open>
  The loop of \<open>_get_rank_file\<close>: \<open>rank['core_map'][0]\<close> raises \<open>IndexError\<close> on an empty
  core map.  The file written is returned with its name.
\<close>

fun rank_file_str :: "nat \<Rightarrow> rank list \<Rightarrow> string \<Rightarrow> py_error + string" where
  "rank_file_str rank_id [] rf_str = Inr rf_str"
| "rank_file_str rank_id (r # ranks) rf_str =
     (case rk_core_map r of
        [] \<Rightarrow> Inl IndexError
      | cores # _ \<Rightarrow>
          rank_file_str (Suc rank_id) ranks
            (rf_str @ ''rank '' @ str_nat rank_id @ ''='' @ rk_node_name r @ '' slots='' @
             join '','' (map str_int cores) @ newline))"

definition get_rank_file ::
  "rank list \<Rightarrow> string \<Rightarrow> string \<Rightarrow> py_error + string \<times> (string \<times> string)" where
  "get_rank_file ranks uid sandbox =
     (case rank_file_str 0 ranks [] of
        Inl e \<Rightarrow> Inl e
      | Inr rf_str \<Rightarrow>
          (let rf_name = sandbox @ ''/'' @ uid @ ''.rf'' in Inr (rf_name, (rf_name, rf_str))))"

text \<open>
  \<open>host_slots\<close> is a \<open>defaultdict(int)\<close>: a missing host counts from 0, and the keys keep
  the order of their first insertion.
\<close>

fun host_slots :: "rank list \<Rightarrow> (string \<times> nat) list \<Rightarrow> (string \<times> nat) list" where
  "host_slots [] hs = hs"
| "host_slots (r # ranks) hs =
     host_slots ranks
       (AList.update (rk_node_name r)
          ((case map_of hs (rk_node_name r) of None \<Rightarrow> 0 | Some n \<Rightarrow> n) + length (rk_core_map r))
          hs)"

definition get_host_file ::
  "rank list \<Rightarrow> string \<Rightarrow> string \<Rightarrow> bool \<Rightarrow> string \<times> (string \<times> string)" where
  "get_host_file ranks uid sandbox simple =
     (let hs = host_slots ranks [];
          hf_str = (if simple then join newline (map fst hs) @ newline
                    else concat (map (\<lambda>(host_name, num_slots).
                           host_name @ '' slots='' @ str_nat num_slots @ newline) hs));
          hf_name = sandbox @ ''/'' @ uid @ ''.hf''
      in (hf_name, (hf_name, hf_str)))"

text \<open>
  What \<open>get_launch_cmds\<close> reads from outside: whether the help text of the command mentions
  \<open>-rf\<close>, and the order in which Python iterates over the set of host names.
\<close>

record shell =
  sh_has_rf :: "string \<Rightarrow> bool"
  sh_set_order :: "string list \<Rightarrow> string list"

text \<open>The result is the command and the files written on the way.\<close>

definition get_launch_cmds ::
  "mpiexec \<Rightarrow> shell \<Rightarrow> lm_task \<Rightarrow> string \<Rightarrow> py_error + string \<times> (string \<times> string) list" where
  "get_launch_cmds self sh task exec_path =
     (let uid = lt_uid task; ranks = lt_ranks task; sbox = lt_task_sandbox_path task
      in if ranks = [] then Inl (AssertionError ''task.slots.ranks not defined'')
         else
           (let cmd_options = ''-np '' @ str_nat (length ranks) @ '' '' in
            (case (if sh_has_rf sh (lm_command self) then
                     (let hosts = sh_set_order sh (map rk_node_name ranks) in
                      (case get_rank_file ranks uid sbox of
                         Inl e \<Rightarrow> Inl e
                       | Inr (rf_name, file) \<Rightarrow>
                           Inr (cmd_options @ ''-H '' @ join '','' hosts @ '' '' @
                                ''-rf '' @ rf_name, [file])))
                   else
                     (case rk_core_map (hd ranks) of
                        [] \<Rightarrow> Inl IndexError
                      | cores # _ \<Rightarrow>
                          (case get_host_file ranks uid sbox True of (hf_name, file) \<Rightarrow>
                             Inr (cmd_options @ ''--hostfile '' @ hf_name @ '' '' @
                                  ''--depth='' @ str_nat (length cores) @ '' --cpu-bind depth'',
                                  [file])))) of
               Inl e \<Rightarrow> Inl e
             | Inr (opts, files) \<Rightarrow>
                 (let opts' = (if lm_omplace self \<noteq> [] then opts @ '' '' @ lm_omplace self
                               else opts)
                  in Inr (strip (lm_command self @ '' '' @ opts' @ '' '' @ exec_path), files)))))"

subsection \<open>Example launch method inputs\<close>

definition ex_probe :: "string option \<Rightarrow> probe" where
  "ex_probe found =
     \<lparr>p_which = (\<lambda>names. if names = mpiexec_names then found else None),
      p_hostname = ''cheyenne1'',
      p_mpi_info = (\<lambda>exe. Inr (Some ''4.1.1'', Some ''OMPI''))\<rparr>"

definition ex_lm :: mpiexec where
  "ex_lm =
     \<lparr>lm_name = ''MPIEXEC'', lm_env = [], lm_env_sh = ''env/lm_mpiexec.sh'',
      lm_command = ''/usr/bin/mpiexec'', lm_mpt = False, lm_rsh = False, lm_ccmrun = [],
      lm_dplace = [], lm_omplace = [], lm_mpi_version = None, lm_mpi_flavor = None\<rparr>"

definition ex_shell :: "bool \<Rightarrow> shell" where
  "ex_shell rf = \<lparr>sh_has_rf = (\<lambda>cmd. rf), sh_set_order = remdups\<rparr>"

definition ex_lm_task :: lm_task where
  "ex_lm_task =
     \<lparr>lt_uid = ''task.0000'',
      lt_ranks = [\<lparr>rk_node_name = ''node1'', rk_core_map = [[0, 1]]\<rparr>,
                  \<lparr>rk_node_name = ''node1'', rk_core_map = [[2, 3]]\<rparr>,
                  \<lparr>rk_node_name = ''node2'', rk_core_map = [[0, 1]]\<rparr>],
      lt_task_sandbox_path = ''/sbox/task.0000''\<rparr>"


section \<open>Session construction: \<open>session.py\<close>\<close>

text \<open>The roles of a session, as the class constants spell them.\<close>

definition PRIMARY :: string where "PRIMARY = ''primary''"
definition AGENT_0 :: string where "AGENT_0 = ''agent_0''"
definition AGENT_N :: string where "AGENT_N = ''agent_n''"
definition DEFAULT :: string where "DEFAULT = ''default''"

text \<open>The attributes of the session that the role dispatch of the constructor reads.\<close>

record session =
  s_role :: string
  s_uid :: "string option"
  s_reg_addr :: "string option"

text \<open>
  What the constructor calls outside the lines modelled here: the exception, if any, of
  building the config and the close options from the arguments; the id that
  \<open>ru.generate_id\<close> returns; the address of a started registry service; the methods
  \<open>_read_cfg\<close>, \<open>_init_cfg\<close> and \<open>_init_proxy\<close>; and the rest of the constructor
  after the dispatch on the role.
\<close>

record session_ext =
  x_setup :: "py_error option"
  x_generate_id :: string
  x_registry_addr :: string
  x_read_cfg :: "session \<Rightarrow> py_error + session"
  x_init_cfg :: "session \<Rightarrow> py_error + session"
  x_init_proxy :: "session \<Rightarrow> py_error + session"
  x_finish :: "session \<Rightarrow> py_error + session"

definition start_registry :: "session_ext \<Rightarrow> session \<Rightarrow> py_error + session" where
  "start_registry ext s =
     (if truthy (s_reg_addr s)
      then Inl (ValueError (''cannot start registry when providing '' @
                             CHR 0x60 # ''reg_addr'' @ [CHR 0x60]))
      else Inr (s\<lparr>s_reg_addr := Some (x_registry_addr ext)\<rparr>))"

definition init_registry :: "session \<Rightarrow> py_error + session" where
  "init_registry s =
     (if \<not> truthy (s_reg_addr s) then Inl (ValueError ''session needs a registry address'')
      else Inr s)"

definition init_primary :: "session_ext \<Rightarrow> session \<Rightarrow> py_error + session" where
  "init_primary ext s =
     (case x_read_cfg ext s of Inl e \<Rightarrow> Inl e | Inr s1 \<Rightarrow>
      (case start_registry ext s1 of Inl e \<Rightarrow> Inl e | Inr s2 \<Rightarrow>
       (case init_registry s2 of Inl e \<Rightarrow> Inl e | Inr s3 \<Rightarrow> x_init_proxy ext s3)))"

definition init_agent_0 :: "session_ext \<Rightarrow> session \<Rightarrow> py_error + session" where
  "init_agent_0 ext s =
     (case start_registry ext s of Inl e \<Rightarrow> Inl e | Inr s1 \<Rightarrow>
      (case init_registry s1 of Inl e \<Rightarrow> Inl e | Inr s2 \<Rightarrow> x_init_cfg ext s2))"

definition init_secondary :: "session \<Rightarrow> py_error + session" where
  "init_secondary s = Inr s"

text \<open>
  \<open>Session.__init__\<close> for the arguments \<open>uid\<close>, \<open>_role\<close> and \<open>_reg_addr\<close>.  The first
  assignment of \<open>self._uid\<close> (the given uid, or a generated one) is overwritten by
  \<open>self._uid = uid\<close> two lines later, so the dispatch starts from the given uid.
\<close>

definition session_init ::
  "session_ext \<Rightarrow> string option \<Rightarrow> string \<Rightarrow> string option \<Rightarrow> py_error + session" where
  "session_init ext uid role reg_addr =
     (let s = \<lparr>s_role = role, s_uid = uid, s_reg_addr = reg_addr\<rparr>
      in case x_setup ext of
           Some e \<Rightarrow> Inl e
         | None \<Rightarrow>
             (case (if s_role s = PRIMARY then
                      init_primary ext
                        (if \<not> truthy (s_uid s) then s\<lparr>s_uid := Some (x_generate_id ext)\<rparr> else s)
                    else if s_role s = AGENT_0 then
                      (if truthy (s_uid s) then Inl (ValueError ''non-primary sessions need a UID'')
                       else init_agent_0 ext s)
                    else if s_role s \<in> set [AGENT_N, DEFAULT] then
                      (if truthy (s_uid s) then Inl (ValueError ''non-primary sessions need a UID'')
                       else init_secondary s)
                    else Inr s) of
                Inl e \<Rightarrow> Inl e
              | Inr s' \<Rightarrow> x_finish ext s'))"

text \<open>An instance of the outside in which every call succeeds, to run the constructor.\<close>

definition ex_session_ext :: session_ext where
  "ex_session_ext =
     \<lparr>x_setup = None, x_generate_id = ''rp.session.0000'',
      x_registry_addr = ''tcp://127.0.0.1:10001'',
      x_read_cfg = Inr, x_init_cfg = Inr, x_init_proxy = Inr, x_finish = Inr\<rparr>"


section \<open>Raptor workers: \<open>raptor_tasks.py\<close>\<close>

text \<open>
  The task modes that \<open>radical.pilot\<close> exports from \<open>task_description\<close> (the module is
  not part of the sources at hand; their string values are not needed).
\<close>

datatype task_mode =
    TASK_EXECUTABLE | TASK_METHOD | TASK_FUNCTION | TASK_EXEC | TASK_EVAL | TASK_PROC
  | TASK_SHELL | RAPTOR_MASTER | RAPTOR_WORKER | AGENT_SERVICE

text \<open>
  The fields of a task description that \<open>submit_workers\<close> reads or writes.  A string
  field that is unset reads as \<open>None\<close> or as the empty string; both are false.
\<close>

record task_description =
  td_uid :: "string option"
  td_executable :: "string option"
  td_named_env :: "string option"
  td_environment :: "(string \<times> string) list"
  td_mode :: task_mode
  td_arguments :: "string list"
  td_raptor_file :: "string option"
  td_raptor_class :: "string option"

record raptor =
  r_uid :: string

text \<open>Python's \<open>x or default\<close> for an optional string.\<close>

definition or_else :: "string option \<Rightarrow> string \<Rightarrow> string" where
  "or_else x d = (if truthy x then the x else d)"

text \<open>The body of the loop of \<open>submit_workers\<close>, for one description.\<close>

definition prepare_worker :: "raptor \<Rightarrow> task_description \<Rightarrow> task_description" where
  "prepare_worker self td =
     (let raptor_file = or_else (td_raptor_file td) [];
          raptor_class = or_else (td_raptor_class td) ''DefaultWorker'';
          td1 = (if \<not> truthy (td_uid td) then td\<lparr>td_uid := Some (r_uid self @ ''.worker'')\<rparr>
                 else td);
          td2 = (if \<not> truthy (td_executable td1)
                 then td1\<lparr>td_executable := Some ''radical-pilot-raptor-worker''\<rparr> else td1);
          td3 = (if \<not> truthy (td_named_env td2) then td2\<lparr>td_named_env := Some ''rp''\<rparr>
                 else td2)
      in td3\<lparr>td_environment := AList.update ''PYTHONUNBUFFERED'' ''1'' (td_environment td3),
              td_mode := RAPTOR_WORKER,
              td_uid := Some ''raptor_worker.0000'',
              td_arguments := [raptor_file, raptor_class, r_uid self]\<rparr>)"

text \<open>
  \<open>submit_workers\<close>: the descriptions as they are handed to \<open>self._tmgr.submit_workers\<close>,
  whose tasks it returns.
\<close>

definition submit_workers :: "raptor \<Rightarrow> task_description list \<Rightarrow> task_description list" where
  "submit_workers self descriptions = map (prepare_worker self) descriptions"

definition ex_td :: "string option \<Rightarrow> string option \<Rightarrow> task_description" where
  "ex_td uid file =
     \<lparr>td_uid = uid, td_executable = None, td_named_env = Some [],
      td_environment = [(''PYTHONUNBUFFERED'', ''0''), (''OMP_NUM_THREADS'', ''2'')],
      td_mode = TASK_EXECUTABLE, td_arguments = [''--verbose''],
      td_raptor_file = file, td_raptor_class = None\<rparr>"


section \<open>Properties\<close>

subsection \<open>Agent-0 final state\<close>

text \<open>
  Claim C5, as stated: every cause other than \<open>timeout\<close> and \<open>cancel\<close> yields
  \<open>FAILED\<close>.  The recorded cause \<open>sys.exit\<close> is neither of the two and yields
  \<open>CANCELED\<close>, so the statement does not hold of \<open>finalize\<close>.
\<close>

theorem finalize_state_sys_exit_counterexample:
  "Some ''sys.exit'' \<noteq> Some ''timeout'' \<and> Some ''sys.exit'' \<noteq> Some ''cancel'' \<and>
   finalize_state (Some ''sys.exit'') = CANCELED \<and>
   finalize_state (Some ''sys.exit'') \<noteq> FAILED"
  by (simp add: finalize_state_def)

text \<open>
  Claim C5, amended: the final pilot state is a total function of the recorded cause:
  \<open>timeout\<close> yields \<open>DONE\<close>, \<open>cancel\<close> and \<open>sys.exit\<close> yield \<open>CANCELED\<close>, and
  every other cause, including none, yields \<open>FAILED\<close>.
\<close>

theorem finalize_state_total:
  "finalize_state c =
     (if c = Some ''timeout'' then DONE
      else if c \<in> {Some ''cancel'', Some ''sys.exit''} then CANCELED
      else FAILED)"
  by (simp add: finalize_state_def)

subsection \<open>Agent-0 mailbox polling\<close>









text \<open>
  The operations of a pull cycle in general: a count, and where it finds pending units, a
  find and after it the multi-update keyed by the uids that were found.
\<close>

lemma check_units_cb_ops:
  "a_db_ops (snd (check_units_cb collapse env a)) =
     a_db_ops a @
       (if find_docs (pending_query (a_pid a)) (a_db a) = []
        then [OpCount (pending_query (a_pid a))]
        else [OpCount (pending_query (a_pid a)), OpFind (pending_query (a_pid a)),
              OpUpdateMulti
                [TypeIs ''unit'',
                 UidIn (map d_uid (find_docs (pending_query (a_pid a)) (a_db a)))]
                (SetControl ''agent'')])"
  by (simp add: check_units_cb_def Let_def)


text \<open>
  Claim C8: when Agent-0 drains the commands \<open>c # cs\<close> of its pilot document, a first
  command \<open>cancel_pilot\<close> publishes exactly the message \<open>terminate\<close> on the control
  pub/sub, sets the final cause to \<open>cancel\<close>, stops the agent and ends the drain with
  \<open>False\<close>; a first command to cancel tasks publishes a cancel message with the
  command's argument, the ids, and goes on with \<open>cs\<close> (the sources say unit where the
  specification says task: the verb of the command and of the message is
  \<open>cancel_units\<close>); a \<open>heartbeat\<close> whose \<open>pmgr\<close> is the owning pilot manager only
  refreshes that manager's heartbeat time stamp; every other verb leaves the state as the
  drain left it.
\<close>

theorem check_commands_verbs:
  assumes fm: "find_and_modify [UidIs (a_pid a)] (SetCmd []) (a_db a) = (Some d, db')"
    and cmds: "d_cmd d = Some (c # cs)"
    and a1: "a1 = a\<lparr>a_db := db',
                     a_db_ops := a_db_ops a @ [OpFindAndModify [UidIs (a_pid a)] (SetCmd [])]\<rparr>"
  shows "(cs_cmd c = ''cancel_pilot'' \<longrightarrow>
            check_commands now a =
              (Inr False,
               a1\<lparr>a_published := a_published a1 @
                      [(CONTROL_PUBSUB, \<lparr>m_cmd = ''terminate'', m_arg = JNull\<rparr>)],
                  a_final_cause := Some ''cancel'', a_stopped := True\<rparr>)) \<and>
         (cs_cmd c = ''cancel_units'' \<longrightarrow>
            check_commands now a =
              run_cmds now cs
                (a1\<lparr>a_published := a_published a1 @
                      [(CONTROL_PUBSUB, \<lparr>m_cmd = ''cancel_units'', m_arg = cs_arg c\<rparr>)]\<rparr>)) \<and>
         (cs_cmd c = ''heartbeat'' \<and> subscript (cs_arg c) ''pmgr'' = Inr (JStr (a_pmgr a)) \<longrightarrow>
            check_commands now a =
              run_cmds now cs (a1\<lparr>a_hb := AList.update (a_pmgr a) now (a_hb a1)\<rparr>)) \<and>
         (cs_cmd c \<notin> {''heartbeat'', ''cancel_pilot'', ''cancel_units''} \<longrightarrow>
            check_commands now a = run_cmds now cs a1)"
proof -
  have cc: "check_commands now a = run_cmds now (c # cs) a1"
    using fm cmds a1 by (simp add: check_commands_def Let_def del: run_cmds.simps)
  have pm: "a_pmgr a1 = a_pmgr a" using a1 by simp
  have p1: "cs_cmd c = ''cancel_pilot'' \<Longrightarrow> run_cmds now (c # cs) a1 =
              (Inr False,
               a1\<lparr>a_published := a_published a1 @
                      [(CONTROL_PUBSUB, \<lparr>m_cmd = ''terminate'', m_arg = JNull\<rparr>)],
                  a_final_cause := Some ''cancel'', a_stopped := True\<rparr>)"
    by (simp add: is_own_heartbeat_def publish_def)
  have p2: "cs_cmd c = ''cancel_units'' \<Longrightarrow> run_cmds now (c # cs) a1 =
              run_cmds now cs
                (a1\<lparr>a_published := a_published a1 @
                      [(CONTROL_PUBSUB, \<lparr>m_cmd = ''cancel_units'', m_arg = cs_arg c\<rparr>)]\<rparr>)"
    by (simp add: is_own_heartbeat_def publish_def)
  have p3: "cs_cmd c = ''heartbeat'' \<Longrightarrow> subscript (cs_arg c) ''pmgr'' = Inr (JStr (a_pmgr a)) \<Longrightarrow>
            run_cmds now (c # cs) a1 =
              run_cmds now cs (a1\<lparr>a_hb := AList.update (a_pmgr a) now (a_hb a1)\<rparr>)"
    using pm by (simp add: is_own_heartbeat_def beat_def)
  have p4: "cs_cmd c \<notin> {''heartbeat'', ''cancel_pilot'', ''cancel_units''} \<Longrightarrow>
            run_cmds now (c # cs) a1 = run_cmds now cs a1"
    by (simp add: is_own_heartbeat_def)
  show ?thesis
    unfolding cc using p1 p2 p3 p4 by blast
qed


lemmas agent_ex_defs = agent_init_def pilot_doc_def cmd_of_def check_commands_def matches_def
      is_own_heartbeat_def publish_def beat_def CONTROL_PUBSUB_def

text \<open>The four cases of claim C8 on concrete mailboxes.\<close>

theorem check_commands_verbs_witness:
  "check_commands 7 (agent_init [pilot_doc [cmd_of ''cancel_pilot'' JNull, cmd_of ''cancel_units'' JNull]]) =
     (Inr False,
      (agent_init [pilot_doc []])
        \<lparr>a_final_cause := Some ''cancel'', a_stopped := True,
          a_published := [(''control_pubsub'', \<lparr>m_cmd = ''terminate'', m_arg = JNull\<rparr>)],
          a_db_ops := [OpFindAndModify [UidIs ''pilot.0000''] (SetCmd [])]\<rparr>) \<and>
   check_commands 7 (agent_init [pilot_doc [cmd_of ''cancel_units'' (JList [JStr ''unit.0000''])]]) =
     (Inr True,
      (agent_init [pilot_doc []])
        \<lparr>a_published := [(''control_pubsub'',
             \<lparr>m_cmd = ''cancel_units'', m_arg = JList [JStr ''unit.0000'']\<rparr>)],
          a_db_ops := [OpFindAndModify [UidIs ''pilot.0000''] (SetCmd [])]\<rparr>) \<and>
   check_commands 7 (agent_init [pilot_doc [cmd_of ''heartbeat'' (JDict [(''pmgr'', JStr ''pmgr.0000'')])]]) =
     (Inr True,
      (agent_init [pilot_doc []])
        \<lparr>a_hb := [(''pmgr.0000'', 7)],
          a_db_ops := [OpFindAndModify [UidIs ''pilot.0000''] (SetCmd [])]\<rparr>) \<and>
   check_commands 7 (agent_init [pilot_doc [cmd_of ''slot_release'' JNull]]) =
     (Inr True,
      (agent_init [pilot_doc []])
        \<lparr>a_db_ops := [OpFindAndModify [UidIs ''pilot.0000''] (SetCmd [])]\<rparr>)"
proof -
  let ?ops = "[OpFindAndModify [UidIs ''pilot.0000''] (SetCmd [])]"
  let ?a1 = "(agent_init [pilot_doc []])\<lparr>a_db_ops := ?ops\<rparr>"
  have w1: ?thesis
    using check_commands_verbs [where a = "agent_init [pilot_doc [cmd_of ''cancel_pilot'' JNull, cmd_of ''cancel_units'' JNull]]"
        and d = "pilot_doc [cmd_of ''cancel_pilot'' JNull, cmd_of ''cancel_units'' JNull]"
        and db' = "[pilot_doc []]" and c = "cmd_of ''cancel_pilot'' JNull"
        and cs = "[cmd_of ''cancel_units'' JNull]" and ?a1.0 = ?a1 and now = 7]
      check_commands_verbs [where a = "agent_init [pilot_doc [cmd_of ''cancel_units'' (JList [JStr ''unit.0000''])]]"
        and d = "pilot_doc [cmd_of ''cancel_units'' (JList [JStr ''unit.0000''])]"
        and db' = "[pilot_doc []]" and c = "cmd_of ''cancel_units'' (JList [JStr ''unit.0000''])"
        and cs = "[]" and ?a1.0 = ?a1 and now = 7]
      check_commands_verbs [where a = "agent_init [pilot_doc [cmd_of ''heartbeat'' (JDict [(''pmgr'', JStr ''pmgr.0000'')])]]"
        and d = "pilot_doc [cmd_of ''heartbeat'' (JDict [(''pmgr'', JStr ''pmgr.0000'')])]"
        and db' = "[pilot_doc []]" and c = "cmd_of ''heartbeat'' (JDict [(''pmgr'', JStr ''pmgr.0000'')])"
        and cs = "[]" and ?a1.0 = ?a1 and now = 7]
      check_commands_verbs [where a = "agent_init [pilot_doc [cmd_of ''slot_release'' JNull]]"
        and d = "pilot_doc [cmd_of ''slot_release'' JNull]"
        and db' = "[pilot_doc []]" and c = "cmd_of ''slot_release'' JNull"
        and cs = "[]" and ?a1.0 = ?a1 and now = 7]
    by (simp add: agent_ex_defs)
  then show ?thesis .
qed

subsection \<open>Staging input\<close>

lemma handle_sd_not_local:
  "sd_action sd \<notin> {COPY, LINK, MOVE} \<Longrightarrow>
   handle_sd ops uid sb ctx sd w =
     (None, w\<lparr>w_prof := w_prof w @ [(''staging_in_start'', uid, sd_uid sd),
                                      (''staging_in_skip'', uid, sd_uid sd)]\<rparr>)"
  by (simp add: handle_sd_def prof_def Let_def)

lemma enact_tarball:
  "enact ops uid did TARBALL src tgt w =
     call_op (Untar (dirname (path tgt) @ ''/'' @ uid @ ''.tar'') ''/'')
       (fs_untar ops (dirname (path tgt) @ ''/'' @ uid @ ''.tar'') ''/'') w"
  by (simp add: enact_def Let_def)

text \<open>
  Claim C1: handling a directive with action \<open>TARBALL\<close> extracts the archive
  \<open>{uid}.tar\<close> of the parent directory of the resolved target, with extraction path
  \<open>/\<close>.  The branch of the chain that does so is the one of \<open>enact_tarball\<close>, and it is
  not reached: the guard at the head of the loop lets only \<open>COPY\<close>, \<open>LINK\<close> and \<open>MOVE\<close>
  pass.  For every task, file system and directive, a \<open>TARBALL\<close> directive is profiled as
  skipped, no file-system call is made, and the task is advanced to scheduling.
\<close>

theorem handle_task_tarball_skipped:
  "handle_task ops task [sd\<lparr>sd_action := TARBALL\<rparr>] (w, adv) =
     (None,
      (w\<lparr>w_prof := w_prof w @ [(''staging_in_start'', t_uid task, sd_uid sd),
                                (''staging_in_skip'', t_uid task, sd_uid sd)]\<rparr>,
       adv @ [([task], AGENT_SCHEDULING_PENDING)]))"
  by (simp add: handle_task_def handle_sd_not_local advance_def Let_def)

lemma split_tasks_eq:
  "split_tasks tasks =
     (filter (\<lambda>t. actionables_of t = []) tasks,
      map (\<lambda>t. (t, actionables_of t)) (filter (\<lambda>t. actionables_of t \<noteq> []) tasks))"
  by (induction tasks) simp_all

lemma handle_task_world:
  "fst c = fst c' \<Longrightarrow>
   fst (handle_task ops t acts c) = fst (handle_task ops t acts c') \<and>
   fst (snd (handle_task ops t acts c)) = fst (snd (handle_task ops t acts c'))"
  by (simp add: handle_task_def advance_def Let_def split: prod.splits option.splits)

lemma handle_task_adv:
  "snd (snd (handle_task ops t acts c)) =
     snd c @ (case fst (handle_task ops t acts c) of
                None \<Rightarrow> [([t], AGENT_SCHEDULING_PENDING)] | Some e \<Rightarrow> [])"
  by (simp add: handle_task_def advance_def Let_def split: prod.splits option.splits)

lemma work_staging_append:
  "work_staging ops (xs @ ys) c = work_staging ops ys (work_staging ops xs c)"
  by (induction ops xs c rule: work_staging.induct) (simp_all split: prod.splits option.splits)

lemma work_staging_world:
  "fst c = fst c' \<Longrightarrow> fst (work_staging ops st c) = fst (work_staging ops st c')"
proof (induction st arbitrary: c c')
  case Nil
  then show ?case by simp
next
  case (Cons p st)
  obtain t acts where p: "p = (t, acts)" by (cases p)
  obtain r c1 where h: "handle_task ops t acts c = (r, c1)" by (cases "handle_task ops t acts c")
  obtain r' c1' where h': "handle_task ops t acts c' = (r', c1')"
    by (cases "handle_task ops t acts c'")
  from handle_task_world [OF Cons.prems, of ops t acts] h h'
  have rr: "r = r'" and ww: "fst c1 = fst c1'" by simp_all
  show ?case
  proof (cases r)
    case None
    then show ?thesis using p h h' rr ww Cons.IH [of c1 c1'] by simp
  next
    case (Some e)
    have "fst (advance [fail_task e t] TMGR_STAGING_OUTPUT_PENDING c1) =
          fst (advance [fail_task e t] TMGR_STAGING_OUTPUT_PENDING c1')"
      using ww by (simp add: advance_def)
    from Cons.IH [OF this]
    have eq: "fst (work_staging ops st (advance [fail_task e t] TMGR_STAGING_OUTPUT_PENDING c1)) =
          fst (work_staging ops st (advance [fail_task e t] TMGR_STAGING_OUTPUT_PENDING c1'))" .
    have l: "work_staging ops (p # st) c =
          work_staging ops st (advance [fail_task e t] TMGR_STAGING_OUTPUT_PENDING c1)"
      using p h Some by simp
    have r: "work_staging ops (p # st) c' =
          work_staging ops st (advance [fail_task e t] TMGR_STAGING_OUTPUT_PENDING c1')"
      using p h' Some rr by simp
    show ?thesis unfolding l r by (rule eq)
  qed
qed

lemma actionables_of_fail_task: "actionables_of (fail_task e t) = actionables_of t"
  by (simp add: actionables_of_def fail_task_def)

lemma t_uid_fail_task: "t_uid (fail_task e t) = t_uid t"
  by (simp add: fail_task_def)

lemma work_staging_entries:
  "\<exists>entries. snd (work_staging ops st c) = snd c @ entries \<and>
     map (\<lambda>e. map t_uid (fst e)) entries = map (\<lambda>p. [t_uid (fst p)]) st \<and>
     (list_all (\<lambda>p. actionables_of (fst p) \<noteq> []) st \<longrightarrow>
        list_all (\<lambda>e. list_all (\<lambda>t. actionables_of t \<noteq> []) (fst e)) entries)"
proof (induction st arbitrary: c)
  case Nil
  then show ?case by simp
next
  case (Cons p st)
  obtain t acts where p: "p = (t, acts)" by (cases p)
  obtain r c1 where h: "handle_task ops t acts c = (r, c1)" by (cases "handle_task ops t acts c")
  have adv: "snd c1 = snd c @ (case r of None \<Rightarrow> [([t], AGENT_SCHEDULING_PENDING)] | Some e \<Rightarrow> [])"
    using handle_task_adv [of ops t acts c] h by simp
  show ?case
  proof (cases r)
    case None
    from Cons.IH [of c1] obtain entries where
      e: "snd (work_staging ops st c1) = snd c1 @ entries"
        "map (\<lambda>e. map t_uid (fst e)) entries = map (\<lambda>p. [t_uid (fst p)]) st"
        "list_all (\<lambda>p. actionables_of (fst p) \<noteq> []) st \<longrightarrow>
           list_all (\<lambda>e. list_all (\<lambda>t. actionables_of t \<noteq> []) (fst e)) entries"
      by blast
    let ?es = "([t], AGENT_SCHEDULING_PENDING) # entries"
    have "snd (work_staging ops (p # st) c) = snd c @ ?es"
      using p h None adv e(1) by simp
    moreover have "map (\<lambda>e. map t_uid (fst e)) ?es = map (\<lambda>p. [t_uid (fst p)]) (p # st)"
      using p e(2) by simp
    moreover have "list_all (\<lambda>p. actionables_of (fst p) \<noteq> []) (p # st) \<longrightarrow>
           list_all (\<lambda>e. list_all (\<lambda>t. actionables_of t \<noteq> []) (fst e)) ?es"
      using p e(3) by simp
    ultimately show ?thesis by blast
  next
    case (Some x)
    let ?c2 = "advance [fail_task x t] TMGR_STAGING_OUTPUT_PENDING c1"
    from Cons.IH [of ?c2] obtain entries where
      e: "snd (work_staging ops st ?c2) = snd ?c2 @ entries"
        "map (\<lambda>e. map t_uid (fst e)) entries = map (\<lambda>p. [t_uid (fst p)]) st"
        "list_all (\<lambda>p. actionables_of (fst p) \<noteq> []) st \<longrightarrow>
           list_all (\<lambda>e. list_all (\<lambda>t. actionables_of t \<noteq> []) (fst e)) entries"
      by blast
    let ?es = "([fail_task x t], TMGR_STAGING_OUTPUT_PENDING) # entries"
    have "snd (work_staging ops (p # st) c) = snd c @ ?es"
      using p h Some adv e(1) by (simp add: advance_def)
    moreover have "map (\<lambda>e. map t_uid (fst e)) ?es = map (\<lambda>p. [t_uid (fst p)]) (p # st)"
      using p e(2) by (simp add: t_uid_fail_task)
    moreover have "list_all (\<lambda>p. actionables_of (fst p) \<noteq> []) (p # st) \<longrightarrow>
           list_all (\<lambda>e. list_all (\<lambda>t. actionables_of t \<noteq> []) (fst e)) ?es"
      using p e(3) by (simp add: actionables_of_fail_task)
    ultimately show ?thesis by blast
  qed
qed


text \<open>
  Claim C3: let \<open>t\<close> be a task of the bulk with actionable directives, \<open>pre\<close> and \<open>post\<close>
  the tasks with actionable directives before and after it, and \<open>c1\<close> the state of the
  component when \<open>t\<close> is reached.  If handling \<open>t\<close> raises \<open>e\<close>, then the component goes
  on with \<open>post\<close> from the state in which \<open>t\<close>, with \<open>target_state\<close> \<open>FAILED\<close> and
  the exception recorded, was advanced to \<open>TMGR_STAGING_OUTPUT_PENDING\<close>; that call of
  \<open>advance\<close> is among the calls of the whole bulk; and the calls of the whole bulk advance
  every task of the bulk exactly once (the tasks without actionable directives first).
\<close>

theorem work_failure_isolated:
  assumes batch: "filter (\<lambda>t. actionables_of t \<noteq> []) tasks = pre @ t # post"
    and c1: "c1 = work_staging ops (map (\<lambda>t. (t, actionables_of t)) pre)
                    (if filter (\<lambda>t. actionables_of t = []) tasks \<noteq> []
                     then advance (filter (\<lambda>t. actionables_of t = []) tasks)
                            AGENT_SCHEDULING_PENDING c
                     else c)"
    and fail: "handle_task ops t (actionables_of t) c1 = (Some e, c2)"
  shows "work ops tasks c =
           work_staging ops (map (\<lambda>t. (t, actionables_of t)) post)
             (advance [t\<lparr>t_target_state := Some FAILED, t_exception := Some e,
                          t_exception_detail := Some e\<rparr>] TMGR_STAGING_OUTPUT_PENDING c2) \<and>
         ([t\<lparr>t_target_state := Some FAILED, t_exception := Some e,
               t_exception_detail := Some e\<rparr>], TMGR_STAGING_OUTPUT_PENDING)
           \<in> set (snd (work ops tasks c)) \<and>
         (\<exists>entries. snd (work ops tasks c) = snd c @ entries \<and>
            concat (map (\<lambda>e. map t_uid (fst e)) entries) =
              map t_uid (filter (\<lambda>t. actionables_of t = []) tasks) @
              map t_uid (filter (\<lambda>t. actionables_of t \<noteq> []) tasks))"
proof -
  let ?f = "\<lambda>t. (t, actionables_of t)"
  let ?ns = "filter (\<lambda>t. actionables_of t = []) tasks"
  let ?st = "filter (\<lambda>t. actionables_of t \<noteq> []) tasks"
  let ?c0 = "if ?ns \<noteq> [] then advance ?ns AGENT_SCHEDULING_PENDING c else c"
  let ?ft = "t\<lparr>t_target_state := Some FAILED, t_exception := Some e,
               t_exception_detail := Some e\<rparr>"
  let ?c3 = "advance [?ft] TMGR_STAGING_OUTPUT_PENDING c2"
  have w: "work ops tasks c = work_staging ops (map ?f ?st) ?c0"
    by (simp add: work_def split_tasks_eq)
  have one: "work_staging ops [?f t] c1 = ?c3"
    using fail by (simp add: fail_task_def)
  have "work_staging ops (map ?f ?st) ?c0 =
          work_staging ops (map ?f post) (work_staging ops [?f t] (work_staging ops (map ?f pre) ?c0))"
    unfolding batch by (simp add: work_staging_append [symmetric] del: work_staging.simps)
  then have first: "work ops tasks c = work_staging ops (map ?f post) ?c3"
    using w c1 one by simp
  obtain es where es: "snd (work_staging ops (map ?f post) ?c3) = snd ?c3 @ es"
    using work_staging_entries [of ops "map ?f post" ?c3] by blast
  have second: "([?ft], TMGR_STAGING_OUTPUT_PENDING) \<in> set (snd (work ops tasks c))"
    unfolding first es by (simp add: advance_def)
  obtain entries where en: "snd (work_staging ops (map ?f ?st) ?c0) = snd ?c0 @ entries"
      "map (\<lambda>e. map t_uid (fst e)) entries = map (\<lambda>p. [t_uid (fst p)]) (map ?f ?st)"
    using work_staging_entries [of ops "map ?f ?st" ?c0] by blast
  let ?en = "(if ?ns \<noteq> [] then [(?ns, AGENT_SCHEDULING_PENDING)] else []) @ entries"
  have a: "snd (work ops tasks c) = snd c @ ?en"
    unfolding w en(1) by (simp add: advance_def)
  have b: "concat (map (\<lambda>e. map t_uid (fst e)) ?en) = map t_uid ?ns @ map t_uid ?st"
    using en(2) by (simp add: comp_def concat_map_singleton)
  from a b have third: "\<exists>entries. snd (work ops tasks c) = snd c @ entries \<and>
            concat (map (\<lambda>e. map t_uid (fst e)) entries) = map t_uid ?ns @ map t_uid ?st"
    by blast
  from first second third show ?thesis by blast
qed

text \<open>
  The bulk in terms of the code's own test: the tasks for which the first loop collects no
  actionable directive are advanced first, as one bulk, and the world reached is that of
  the other tasks alone.
\<close>

lemma work_split_bulk:
  "(filter (\<lambda>t. actionables_of t = []) tasks \<noteq> [] \<longrightarrow>
      (\<exists>rest. snd (work ops tasks c) =
                 snd c @ (filter (\<lambda>t. actionables_of t = []) tasks, AGENT_SCHEDULING_PENDING) # rest \<and>
               list_all (\<lambda>e. list_all (\<lambda>t. actionables_of t \<noteq> []) (fst e)) rest)) \<and>
   fst (work ops tasks c) = fst (work ops (filter (\<lambda>t. actionables_of t \<noteq> []) tasks) c) \<and>
   (list_all (\<lambda>t. actionables_of t = []) tasks \<longrightarrow> fst (work ops tasks c) = fst c)"
proof -
  let ?f = "\<lambda>t. (t, actionables_of t)"
  let ?ns = "filter (\<lambda>t. actionables_of t = []) tasks"
  let ?st = "filter (\<lambda>t. actionables_of t \<noteq> []) tasks"
  let ?c0 = "if ?ns \<noteq> [] then advance ?ns AGENT_SCHEDULING_PENDING c else c"
  have w: "work ops tasks c = work_staging ops (map ?f ?st) ?c0"
    by (simp add: work_def split_tasks_eq)
  have all: "list_all (\<lambda>p. actionables_of (fst p) \<noteq> []) (map ?f ?st)"
    by (simp add: list_all_iff)
  obtain entries where en: "snd (work_staging ops (map ?f ?st) ?c0) = snd ?c0 @ entries"
      "list_all (\<lambda>e. list_all (\<lambda>t. actionables_of t \<noteq> []) (fst e)) entries"
    using work_staging_entries [of ops "map ?f ?st" ?c0] all by blast
  have first: "?ns \<noteq> [] \<longrightarrow>
      (\<exists>rest. snd (work ops tasks c) = snd c @ (?ns, AGENT_SCHEDULING_PENDING) # rest \<and>
               list_all (\<lambda>e. list_all (\<lambda>t. actionables_of t \<noteq> []) (fst e)) rest)"
    using en unfolding w by (auto simp: advance_def)
  have w': "work ops ?st c = work_staging ops (map ?f ?st) c"
    by (simp add: work_def split_tasks_eq)
  have "fst ?c0 = fst c" by (simp add: advance_def)
  then have second: "fst (work ops tasks c) = fst (work ops ?st c)"
    unfolding w w' by (rule work_staging_world)
  have third: "list_all (\<lambda>t. actionables_of t = []) tasks \<longrightarrow> fst (work ops tasks c) = fst c"
  proof
    assume "list_all (\<lambda>t. actionables_of t = []) tasks"
    then have "?st = []" by (simp add: list_all_iff filter_empty_conv)
    then show "fst (work ops tasks c) = fst c" unfolding w by (simp add: advance_def)
  qed
  from first second third show ?thesis by blast
qed


lemmas staging_ex_defs = ex_t_fail_def ex_t_none_def ex_t_link_def ex_t_tar_def ex_task_def
  ex_sd_def ex_world_def ex_ops_def ex_url_def ex_complete_url_def ex_insert_def
  work_def handle_task_def handle_sd_def normalize_target_def enact_def call_op_def query_def
  prof_def advance_def localize_def actionables_of_def fail_task_def strip_def basename_def
  dirname_def path_join_def isspace_def ENOTDIR_def Let_def

lemma ex_acts:
  "actionables_of ex_t_fail \<noteq> []" "actionables_of ex_t_none = []" "actionables_of ex_t_link \<noteq> []"
  by (simp_all add: ex_t_fail_def ex_t_none_def ex_t_link_def ex_task_def ex_sd_def
      actionables_of_def)

lemma ex_fail_handle:
  "fst (handle_task ex_ops ex_t_fail (actionables_of ex_t_fail)
         (advance [ex_t_none] AGENT_SCHEDULING_PENDING (ex_world, []))) = Some (OSError 2)"
  by (simp add: staging_ex_defs)

text \<open>
  The hypotheses of claim C3 on a bulk of three tasks: the first copies a source that is
  missing, the second has no directive, the third links a file.
\<close>

theorem work_failure_isolated_witness:
  "fst (handle_task ex_ops ex_t_fail (actionables_of ex_t_fail)
         (advance [ex_t_none] AGENT_SCHEDULING_PENDING (ex_world, []))) = Some (OSError 2) \<and>
   ([ex_t_fail\<lparr>t_target_state := Some FAILED, t_exception := Some (OSError 2),
                t_exception_detail := Some (OSError 2)\<rparr>], TMGR_STAGING_OUTPUT_PENDING)
     \<in> set (snd (work ex_ops [ex_t_fail, ex_t_none, ex_t_link] (ex_world, [])))"
proof -
  let ?c1 = "advance [ex_t_none] AGENT_SCHEDULING_PENDING (ex_world, [])"
  have b: "filter (\<lambda>t. actionables_of t \<noteq> []) [ex_t_fail, ex_t_none, ex_t_link]
             = [] @ ex_t_fail # [ex_t_link]"
    by (simp add: ex_acts)
  have c: "?c1 = work_staging ex_ops (map (\<lambda>t. (t, actionables_of t)) [])
                    (if filter (\<lambda>t. actionables_of t = []) [ex_t_fail, ex_t_none, ex_t_link] \<noteq> []
                     then advance (filter (\<lambda>t. actionables_of t = []) [ex_t_fail, ex_t_none, ex_t_link])
                            AGENT_SCHEDULING_PENDING (ex_world, [])
                     else (ex_world, []))"
    by (simp add: ex_acts)
  have f: "handle_task ex_ops ex_t_fail (actionables_of ex_t_fail) ?c1
             = (Some (OSError 2), snd (handle_task ex_ops ex_t_fail (actionables_of ex_t_fail) ?c1))"
    using ex_fail_handle by (simp add: prod_eq_iff)
  from work_failure_isolated [OF b c f] ex_fail_handle show ?thesis by blast
qed

text \<open>
  The code's test agrees with the words of the specification: the first loop collects no
  actionable directive for a task exactly when none of its input staging directives has
  an action among \<open>LINK\<close>, \<open>COPY\<close>, \<open>MOVE\<close> and \<open>TARBALL\<close>.
\<close>

lemma no_local_directive_iff: "no_local_directive t \<longleftrightarrow> actionables_of t = []"
  by (auto simp: no_local_directive_def actionables_of_def filter_empty_conv list_ex_iff)

text \<open>
  Claim C4: the tasks of a bulk that have no input staging directive with an action among
  \<open>LINK\<close>, \<open>COPY\<close>, \<open>MOVE\<close>, \<open>TARBALL\<close> are, when there are any, advanced to
  \<open>AGENT_SCHEDULING_PENDING\<close> by the first call of \<open>advance\<close>, as one bulk, and every later
  call advances only tasks that have such a directive.  The file system, the file-system
  calls and the profile reached are those of the bulk without these tasks; for a bulk of
  such tasks only they are unchanged.
\<close>

theorem work_no_staging_bulk:
  "(filter no_local_directive tasks \<noteq> [] \<longrightarrow>
      (\<exists>rest. snd (work ops tasks c) =
                 snd c @ (filter no_local_directive tasks, AGENT_SCHEDULING_PENDING) # rest \<and>
               list_all (\<lambda>e. list_all (\<lambda>t. \<not> no_local_directive t) (fst e)) rest)) \<and>
   fst (work ops tasks c) = fst (work ops (filter (\<lambda>t. \<not> no_local_directive t) tasks) c) \<and>
   (list_all no_local_directive tasks \<longrightarrow> fst (work ops tasks c) = fst c)"
proof -
  have eq: "no_local_directive = (\<lambda>t. actionables_of t = [])"
    by (rule ext) (rule no_local_directive_iff)
  show ?thesis
    unfolding eq by (rule work_split_bulk)
qed

text \<open>
  Claim C4 on a bulk of a task whose only directive is a \<open>TRANSFER\<close> and a task without
  directives, and on a bulk of a task that links a file and the \<open>TRANSFER\<close> task.  A task
  with a \<open>TARBALL\<close> directive is not among the tasks of the claim.
\<close>

theorem work_no_staging_bulk_witness:
  "no_local_directive ex_t_transfer \<and> no_local_directive ex_t_none \<and>
   \<not> no_local_directive ex_t_link \<and> \<not> no_local_directive ex_t_tar \<and>
   snd (work ex_ops [ex_t_transfer, ex_t_none] (ex_world, [])) =
     [([ex_t_transfer, ex_t_none], AGENT_SCHEDULING_PENDING)] \<and>
   fst (work ex_ops [ex_t_transfer, ex_t_none] (ex_world, [])) = ex_world \<and>
   fst (work ex_ops [ex_t_link, ex_t_transfer] (ex_world, [])) =
     fst (work ex_ops [ex_t_link] (ex_world, [])) \<and>
   hd (snd (work ex_ops [ex_t_link, ex_t_transfer] (ex_world, []))) =
     ([ex_t_transfer], AGENT_SCHEDULING_PENDING)"
proof -
  have p: "no_local_directive ex_t_transfer" "no_local_directive ex_t_none"
      "\<not> no_local_directive ex_t_link" "\<not> no_local_directive ex_t_tar"
    by (simp_all add: no_local_directive_def ex_t_transfer_def ex_t_none_def ex_t_link_def
        ex_t_tar_def ex_task_def ex_sd_def)
  from work_no_staging_bulk [of "[ex_t_transfer, ex_t_none]" ex_ops "(ex_world, [])"]
  have a: "fst (work ex_ops [ex_t_transfer, ex_t_none] (ex_world, [])) = ex_world"
    and a': "\<exists>rest. snd (work ex_ops [ex_t_transfer, ex_t_none] (ex_world, [])) =
                 ([ex_t_transfer, ex_t_none], AGENT_SCHEDULING_PENDING) # rest"
    by (auto simp: p)
  have a2: "snd (work ex_ops [ex_t_transfer, ex_t_none] (ex_world, [])) =
     [([ex_t_transfer, ex_t_none], AGENT_SCHEDULING_PENDING)]"
    using p by (simp add: work_def split_tasks_eq no_local_directive_iff advance_def)
  from work_no_staging_bulk [of "[ex_t_link, ex_t_transfer]" ex_ops "(ex_world, [])"]
  have b: "fst (work ex_ops [ex_t_link, ex_t_transfer] (ex_world, [])) =
     fst (work ex_ops [ex_t_link] (ex_world, []))"
    and b': "\<exists>rest. snd (work ex_ops [ex_t_link, ex_t_transfer] (ex_world, [])) =
                 ([ex_t_transfer], AGENT_SCHEDULING_PENDING) # rest"
    by (auto simp: p)
  from b' have b2: "hd (snd (work ex_ops [ex_t_link, ex_t_transfer] (ex_world, []))) =
     ([ex_t_transfer], AGENT_SCHEDULING_PENDING)" by auto
  from p a a2 b b2 show ?thesis by blast
qed

subsection \<open>MPIExec launch method\<close>

lemma dropWhile_keeps:
  "m \<noteq> [] \<Longrightarrow> \<not> P (hd m) \<Longrightarrow> \<exists>a'. dropWhile P (a @ m @ b) = a' @ m @ b"
proof (induction a)
  case Nil
  then have "dropWhile P (m @ b) = m @ b" by (cases m) simp_all
  then show ?case by (metis append_Nil)
next
  case (Cons x a)
  show ?case
  proof (cases "P x")
    case True
    then show ?thesis using Cons by simp
  next
    case False
    then have "dropWhile P ((x # a) @ m @ b) = (x # a) @ m @ b" by simp
    then show ?thesis by blast
  qed
qed

lemma strip_keeps:
  assumes "m \<noteq> []" "\<not> isspace (hd m)" "\<not> isspace (last m)"
  shows "sublist m (strip (a @ m @ b))"
proof -
  obtain a' where a': "dropWhile isspace (a @ m @ b) = a' @ m @ b"
    using dropWhile_keeps [of m isspace a b] assms(1,2) by blast
  have "rev m \<noteq> []" "\<not> isspace (hd (rev m))"
    using assms by (simp_all add: hd_rev)
  then obtain b' where b': "dropWhile isspace (rev b @ rev m @ rev a') = b' @ rev m @ rev a'"
    using dropWhile_keeps [of "rev m" isspace "rev b" "rev a'"] by blast
  have "strip (a @ m @ b) = a' @ m @ rev b'"
    by (simp add: strip_def a' b')
  then show ?thesis by (auto simp: sublist_def)
qed

lemma digit_not_space: "d < 10 \<Longrightarrow> \<not> isspace (digit d)"
  by (simp add: isspace_def digit_def Let_def)

lemma str_nat_last: "str_nat n \<noteq> [] \<and> \<not> isspace (last (str_nat n))"
  by (subst (1 2) str_nat.simps) (simp add: digit_not_space)

lemma rank_file_str_eq:
  "list_all (\<lambda>r. rk_core_map r \<noteq> []) ranks \<Longrightarrow>
   rank_file_str i ranks acc =
     Inr (acc @ concat (map (\<lambda>(k, r). ''rank '' @ str_nat k @ ''='' @ rk_node_name r @
            '' slots='' @ join '','' (map str_int (hd (rk_core_map r))) @ newline)
          (List.enumerate i ranks)))"
proof (induction ranks arbitrary: i acc)
  case Nil
  then show ?case by simp
next
  case (Cons r ranks)
  then obtain cores rest where c: "rk_core_map r = cores # rest"
    by (cases "rk_core_map r") simp_all
  from Cons.prems have "list_all (\<lambda>r. rk_core_map r \<noteq> []) ranks" by simp
  from Cons.IH [OF this] show ?case using c by simp
qed

lemma host_slots_keys:
  "distinct (map fst hs) \<Longrightarrow>
   distinct (map fst (host_slots ranks hs)) \<and>
   set (map fst (host_slots ranks hs)) = set (map fst hs) \<union> set (map rk_node_name ranks)"
proof (induction ranks arbitrary: hs)
  case Nil
  then show ?case by simp
next
  case (Cons r ranks)
  let ?hs = "AList.update (rk_node_name r)
          ((case map_of hs (rk_node_name r) of None \<Rightarrow> 0 | Some n \<Rightarrow> n) + length (rk_core_map r)) hs"
  have d: "distinct (map fst ?hs)" using Cons.prems by (rule distinct_update)
  have s: "set (map fst ?hs) = insert (rk_node_name r) (set (map fst hs))"
    by (simp add: update_keys) auto
  from Cons.IH [OF d] s show ?case by auto
qed


text \<open>
  Claim C6: for a placed task (the list of ranks is not empty and every rank has a core
  map entry) \<open>get_launch_cmds\<close> returns a command that contains \<open>-np n\<close>, \<open>n\<close> the
  number of ranks, and uses exactly one of two placements, chosen by whether the backend
  knows \<open>-rf\<close>.  Either the one file written is the rank file, with one line per rank
  giving the rank's number, its node name and the core indices of its first core map
  entry, and the command names it after \<open>-rf\<close>; or the one file written is the host file,
  listing every node of the ranks once, and the command names it after \<open>--hostfile\<close> and
  gives \<open>--depth=\<close> the number of core indices of the first rank's first core map entry.
\<close>

theorem get_launch_cmds_placement:
  assumes ne: "lt_ranks task \<noteq> []"
    and cm: "list_all (\<lambda>r. rk_core_map r \<noteq> []) (lt_ranks task)"
  shows "\<exists>cmd files hosts.
     get_launch_cmds self sh task exec_path = Inr (cmd, files) \<and>
     sublist (''-np '' @ str_nat (length (lt_ranks task))) cmd \<and>
     distinct hosts \<and> set hosts = set (map rk_node_name (lt_ranks task)) \<and>
     (if sh_has_rf sh (lm_command self) then
        files = [(lt_task_sandbox_path task @ ''/'' @ lt_uid task @ ''.rf'',
                  concat (map (\<lambda>(k, r). ''rank '' @ str_nat k @ ''='' @ rk_node_name r @
                      '' slots='' @ join '','' (map str_int (hd (rk_core_map r))) @ newline)
                    (List.enumerate 0 (lt_ranks task))))] \<and>
        cmd = strip (lm_command self @ '' -np '' @ str_nat (length (lt_ranks task)) @
                '' -H '' @ join '','' (sh_set_order sh (map rk_node_name (lt_ranks task))) @
                '' -rf '' @ lt_task_sandbox_path task @ ''/'' @ lt_uid task @ ''.rf'' @
                (if lm_omplace self \<noteq> [] then '' '' @ lm_omplace self else []) @
                '' '' @ exec_path)
      else
        files = [(lt_task_sandbox_path task @ ''/'' @ lt_uid task @ ''.hf'',
                  join newline hosts @ newline)] \<and>
        cmd = strip (lm_command self @ '' -np '' @ str_nat (length (lt_ranks task)) @
                '' --hostfile '' @ lt_task_sandbox_path task @ ''/'' @ lt_uid task @ ''.hf'' @
                '' --depth='' @ str_nat (length (hd (rk_core_map (hd (lt_ranks task))))) @
                '' --cpu-bind depth'' @
                (if lm_omplace self \<noteq> [] then '' '' @ lm_omplace self else []) @
                '' '' @ exec_path))"
proof -
  let ?np = "''-np '' @ str_nat (length (lt_ranks task))"
  let ?hosts = "map fst (host_slots (lt_ranks task) [])"
  have hosts: "distinct ?hosts" "set ?hosts = set (map rk_node_name (lt_ranks task))"
    using host_slots_keys [of "[]" "lt_ranks task"] by simp_all
  have np: "?np \<noteq> []" "\<not> isspace (hd ?np)" "\<not> isspace (last ?np)"
    using str_nat_last [of "length (lt_ranks task)"] by (simp_all add: isspace_def)
  have sub: "\<And>a b. sublist ?np (strip (a @ ?np @ b))"
    using np by (rule strip_keeps)
  obtain r0 rs where r0: "lt_ranks task = r0 # rs" using ne by (cases "lt_ranks task") auto
  obtain c0 cs where c0: "rk_core_map r0 = c0 # cs"
    using cm r0 by (cases "rk_core_map r0") auto
  show ?thesis
  proof (cases "sh_has_rf sh (lm_command self)")
    case True
    let ?rf = "lt_task_sandbox_path task @ ''/'' @ lt_uid task @ ''.rf''"
    let ?body = "concat (map (\<lambda>(k, r). ''rank '' @ str_nat k @ ''='' @ rk_node_name r @
                      '' slots='' @ join '','' (map str_int (hd (rk_core_map r))) @ newline)
                    (List.enumerate 0 (lt_ranks task)))"
    let ?tail = "'' -H '' @ join '','' (sh_set_order sh (map rk_node_name (lt_ranks task))) @
                '' -rf '' @ ?rf @
                (if lm_omplace self \<noteq> [] then '' '' @ lm_omplace self else []) @
                '' '' @ exec_path"
    let ?cmd = "strip ((lm_command self @ '' '') @ ?np @ ?tail)"
    have rf: "get_rank_file (lt_ranks task) (lt_uid task) (lt_task_sandbox_path task) =
                Inr (?rf, (?rf, ?body))"
      using rank_file_str_eq [OF cm, of 0 "[]"] by (simp add: get_rank_file_def Let_def)
    have g: "get_launch_cmds self sh task exec_path = Inr (?cmd, [(?rf, ?body)])"
      using True ne rf by (simp add: get_launch_cmds_def Let_def)
    have "sublist ?np ?cmd" by (rule sub)
    with g hosts True show ?thesis by auto
  next
    case False
    let ?hf = "lt_task_sandbox_path task @ ''/'' @ lt_uid task @ ''.hf''"
    let ?tail = "'' --hostfile '' @ ?hf @
                '' --depth='' @ str_nat (length (hd (rk_core_map (hd (lt_ranks task))))) @
                '' --cpu-bind depth'' @
                (if lm_omplace self \<noteq> [] then '' '' @ lm_omplace self else []) @
                '' '' @ exec_path"
    let ?cmd = "strip ((lm_command self @ '' '') @ ?np @ ?tail)"
    have hf: "get_host_file (lt_ranks task) (lt_uid task) (lt_task_sandbox_path task) True =
                (?hf, (?hf, join newline ?hosts @ newline))"
      by (simp add: get_host_file_def Let_def)
    have g: "get_launch_cmds self sh task exec_path =
               Inr (?cmd, [(?hf, join newline ?hosts @ newline)])"
      using False ne hf r0 c0 by (simp add: get_launch_cmds_def Let_def)
    have "sublist ?np ?cmd" by (rule sub)
    with g hosts False show ?thesis by auto
  qed
qed

text \<open>
  Claim C7: let \<open>info\<close> be the \<open>lm_info\<close> that \<open>_init_from_scratch\<close> produced.  Then
  \<open>_init_from_info\<close> succeeds on it from any state of the object, every field of
  \<open>info\<close> is restored unchanged (the environment, its script and the probed command
  among them), and two launch methods initialised from \<open>info\<close> give the same launcher
  environment commands, the same rank command and the same launch command for every task.
\<close>

theorem init_from_info_restores:
  assumes scratch: "init_from_scratch name pr env env_sh = Inr info"
  shows "\<exists>lm lm'.
     init_from_info self info = Inr lm \<and> init_from_info other info = Inr lm' \<and>
     lm_env lm = li_env info \<and> lm_env_sh lm = li_env_sh info \<and>
     lm_command lm = li_command info \<and> lm_mpt lm = li_mpt info \<and> lm_rsh lm = li_rsh info \<and>
     lm_ccmrun lm = li_ccmrun info \<and> lm_dplace lm = li_dplace info \<and>
     lm_omplace lm = li_omplace info \<and> lm_mpi_version lm = li_mpi_version info \<and>
     lm_mpi_flavor lm = li_mpi_flavor info \<and>
     lm_env lm = env \<and> lm_env_sh lm = env_sh \<and>
     lm_command lm = the (p_which pr mpiexec_names) \<and>
     get_launcher_env lm' = get_launcher_env lm \<and>
     get_rank_cmd lm' = get_rank_cmd lm \<and>
     get_launch_cmds lm' sh task exec_path = get_launch_cmds lm sh task exec_path"
proof -
  from scratch have found: "truthy (p_which pr mpiexec_names)"
    by (simp add: init_from_scratch_def split: if_splits)
  then have cmd: "the (p_which pr mpiexec_names) \<noteq> []"
    by (cases "p_which pr mpiexec_names") simp_all
  from scratch found obtain ccmrun dplace v f where
    info: "info = \<lparr>li_env = env, li_env_sh = env_sh,
                  li_command = the (p_which pr mpiexec_names),
                  li_mpt = (sublist ''_mpt'' (lower name) \<or> sublist ''cheyenne'' (p_hostname pr)),
                  li_rsh = sublist ''_rsh'' (lower name),
                  li_ccmrun = ccmrun, li_dplace = dplace,
                  li_omplace = (if sublist ''cheyenne'' (p_hostname pr) then ''omplace'' else []),
                  li_mpi_version = v, li_mpi_flavor = f\<rparr>"
    by (auto simp: init_from_scratch_def split: sum.splits prod.splits)
  have om: "(if li_omplace info = [] then [] else ''omplace'') = li_omplace info"
    by (simp add: info)
  have c: "li_command info \<noteq> []" using cmd by (simp add: info)
  have a: "init_from_info self info =
      Inr (self\<lparr>lm_env := li_env info, lm_env_sh := li_env_sh info,
                lm_command := li_command info, lm_mpt := li_mpt info, lm_rsh := li_rsh info,
                lm_dplace := li_dplace info, lm_ccmrun := li_ccmrun info,
                lm_mpi_version := li_mpi_version info, lm_mpi_flavor := li_mpi_flavor info,
                lm_omplace := li_omplace info\<rparr>)"
    using c om by (simp add: init_from_info_def)
  have b: "init_from_info other info =
      Inr (other\<lparr>lm_env := li_env info, lm_env_sh := li_env_sh info,
                lm_command := li_command info, lm_mpt := li_mpt info, lm_rsh := li_rsh info,
                lm_dplace := li_dplace info, lm_ccmrun := li_ccmrun info,
                lm_mpi_version := li_mpi_version info, lm_mpi_flavor := li_mpi_flavor info,
                lm_omplace := li_omplace info\<rparr>)"
    using c om by (simp add: init_from_info_def)
  have e1: "\<And>x y. lm_env_sh x = lm_env_sh y \<Longrightarrow> lm_mpt x = lm_mpt y \<Longrightarrow>
              get_launcher_env x = get_launcher_env y"
    by (simp add: get_launcher_env_def)
  have e2: "\<And>x y. lm_mpt x = lm_mpt y \<Longrightarrow> get_rank_cmd x = get_rank_cmd y"
    by (simp add: get_rank_cmd_def)
  have e3: "get_launch_cmds x sh task exec_path = get_launch_cmds y sh task exec_path"
    if c: "lm_command x = lm_command y" and o: "lm_omplace x = lm_omplace y" for x y
    unfolding get_launch_cmds_def c o by (rule refl)
  have i: "li_env info = env" "li_env_sh info = env_sh"
      "li_command info = the (p_which pr mpiexec_names)"
    by (simp_all add: info)
  show ?thesis
    unfolding a b using i
    by (auto intro!: e1 e2 e3)
qed


lemma ex_launch_rf:
  "get_launch_cmds ex_lm (ex_shell True) ex_lm_task ''./task.0000.exec.sh'' =
     Inr (''/usr/bin/mpiexec -np 3 -H node1,node2 -rf /sbox/task.0000/task.0000.rf ./task.0000.exec.sh'',
          [(''/sbox/task.0000/task.0000.rf'',
            ''rank 0=node1 slots=0,1'' @ newline @ ''rank 1=node1 slots=2,3'' @ newline @
            ''rank 2=node2 slots=0,1'' @ newline)])"
  by code_simp

lemma ex_launch_hf:
  "get_launch_cmds ex_lm (ex_shell False) ex_lm_task ''./task.0000.exec.sh'' =
     Inr (''/usr/bin/mpiexec -np 3 --hostfile /sbox/task.0000/task.0000.hf --depth=2 --cpu-bind depth ./task.0000.exec.sh'',
          [(''/sbox/task.0000/task.0000.hf'', ''node1'' @ newline @ ''node2'' @ newline)])"
  by code_simp

text \<open>
  Claim C6 on a task of three ranks on two nodes, with and without \<open>-rf\<close>.
\<close>

theorem get_launch_cmds_placement_witness:
  "lt_ranks ex_lm_task \<noteq> [] \<and>
   list_all (\<lambda>r. rk_core_map r \<noteq> []) (lt_ranks ex_lm_task) \<and>
   sublist (''-np '' @ str_nat (length (lt_ranks ex_lm_task)))
     ''/usr/bin/mpiexec -np 3 -H node1,node2 -rf /sbox/task.0000/task.0000.rf ./task.0000.exec.sh'' \<and>
   sublist (''-np '' @ str_nat (length (lt_ranks ex_lm_task)))
     ''/usr/bin/mpiexec -np 3 --hostfile /sbox/task.0000/task.0000.hf --depth=2 --cpu-bind depth ./task.0000.exec.sh''"
proof -
  have h1: "lt_ranks ex_lm_task \<noteq> []" by (simp add: ex_lm_task_def)
  have h2: "list_all (\<lambda>r. rk_core_map r \<noteq> []) (lt_ranks ex_lm_task)"
    by (simp add: ex_lm_task_def)
  from get_launch_cmds_placement [OF h1 h2, of ex_lm "ex_shell True" "''./task.0000.exec.sh''"]
  have a: "sublist (''-np '' @ str_nat (length (lt_ranks ex_lm_task)))
     ''/usr/bin/mpiexec -np 3 -H node1,node2 -rf /sbox/task.0000/task.0000.rf ./task.0000.exec.sh''"
    unfolding ex_launch_rf by blast
  from get_launch_cmds_placement [OF h1 h2, of ex_lm "ex_shell False" "''./task.0000.exec.sh''"]
  have b: "sublist (''-np '' @ str_nat (length (lt_ranks ex_lm_task)))
     ''/usr/bin/mpiexec -np 3 --hostfile /sbox/task.0000/task.0000.hf --depth=2 --cpu-bind depth ./task.0000.exec.sh''"
    unfolding ex_launch_hf by blast
  from h1 h2 a b show ?thesis by blast
qed

lemma ex_scratch:
  "init_from_scratch ''MPIEXEC_MPT'' (ex_probe (Some ''/usr/bin/mpiexec'')) [(''A'', ''b'')] ''env/lm.sh'' =
     Inr \<lparr>li_env = [(''A'', ''b'')], li_env_sh = ''env/lm.sh'',
          li_command = ''/usr/bin/mpiexec'', li_mpt = True, li_rsh = False,
          li_ccmrun = [], li_dplace = [], li_omplace = ''omplace'',
          li_mpi_version = Some ''4.1.1'', li_mpi_flavor = Some ''OMPI''\<rparr>"
  by code_simp

text \<open>
  Claim C7 for the launch method \<open>MPIEXEC_MPT\<close> probed on a host named \<open>cheyenne1\<close>.
\<close>

theorem init_from_info_restores_witness:
  "init_from_scratch ''MPIEXEC_MPT'' (ex_probe (Some ''/usr/bin/mpiexec'')) [(''A'', ''b'')] ''env/lm.sh'' =
     Inr \<lparr>li_env = [(''A'', ''b'')], li_env_sh = ''env/lm.sh'',
          li_command = ''/usr/bin/mpiexec'', li_mpt = True, li_rsh = False,
          li_ccmrun = [], li_dplace = [], li_omplace = ''omplace'',
          li_mpi_version = Some ''4.1.1'', li_mpi_flavor = Some ''OMPI''\<rparr> \<and>
   (\<exists>lm. init_from_info ex_lm
           \<lparr>li_env = [(''A'', ''b'')], li_env_sh = ''env/lm.sh'',
            li_command = ''/usr/bin/mpiexec'', li_mpt = True, li_rsh = False,
            li_ccmrun = [], li_dplace = [], li_omplace = ''omplace'',
            li_mpi_version = Some ''4.1.1'', li_mpi_flavor = Some ''OMPI''\<rparr> = Inr lm \<and>
         lm_command lm = ''/usr/bin/mpiexec'' \<and> lm_mpt lm \<and> lm_omplace lm = ''omplace'' \<and>
         lm_env_sh lm = ''env/lm.sh'')"
  using init_from_info_restores [OF ex_scratch, of ex_lm ex_lm "ex_shell True" ex_lm_task "[]"]
    ex_scratch
  by auto

text \<open>
  Outside the placed tasks the command is not built: an empty list of ranks fails the
  assertion, and a first rank without a core map entry raises \<open>IndexError\<close> on either
  placement.
\<close>

lemma get_launch_cmds_no_ranks:
  "lt_ranks task = [] \<Longrightarrow>
   get_launch_cmds self sh task exec_path = Inl (AssertionError ''task.slots.ranks not defined'')"
  by (simp add: get_launch_cmds_def Let_def)

lemma get_launch_cmds_no_core_map:
  "lt_ranks task = r # rs \<Longrightarrow> rk_core_map r = [] \<Longrightarrow>
   get_launch_cmds self sh task exec_path = Inl IndexError"
  by (simp add: get_launch_cmds_def get_rank_file_def Let_def)

subsection \<open>Session construction\<close>

text \<open>
  What the uid test of the constructor does.  For the roles \<open>agent_0\<close>, \<open>agent_n\<close> and
  \<open>default\<close>, when the config and the close options are built without error, a uid that
  is neither \<open>None\<close> nor empty makes the constructor raise \<open>ValueError\<close> with the message
  that non-primary sessions need a UID, and a session of these roles is constructed only
  with the uid \<open>None\<close> or empty: the test raises where a UID is given and passes where
  none is, against its own message.  For the primary role the test raises nothing.
\<close>

lemma session_init_uid_check:
  assumes role: "role \<in> {AGENT_0, AGENT_N, DEFAULT}"
  shows "(x_setup ext = None \<and> truthy uid \<longrightarrow>
            session_init ext uid role reg_addr =
              Inl (ValueError ''non-primary sessions need a UID'')) \<and>
         (\<forall>s. session_init ext uid role reg_addr = Inr s \<longrightarrow> uid = None \<or> uid = Some []) \<and>
         session_init ext uid PRIMARY reg_addr =
           (case x_setup ext of
              Some e \<Rightarrow> Inl e
            | None \<Rightarrow>
                (case init_primary ext
                        \<lparr>s_role = PRIMARY,
                         s_uid = (if truthy uid then uid else Some (x_generate_id ext)),
                         s_reg_addr = reg_addr\<rparr> of
                   Inl e \<Rightarrow> Inl e
                 | Inr s' \<Rightarrow> x_finish ext s'))"
proof -
  have np: "role \<noteq> PRIMARY"
    using role by (auto simp: PRIMARY_def AGENT_0_def AGENT_N_def DEFAULT_def)
  have a: "x_setup ext = None \<and> truthy uid \<longrightarrow>
            session_init ext uid role reg_addr =
              Inl (ValueError ''non-primary sessions need a UID'')"
    using role np by (auto simp: session_init_def Let_def)
  have b: "\<forall>s. session_init ext uid role reg_addr = Inr s \<longrightarrow> uid = None \<or> uid = Some []"
  proof (intro allI impI)
    fix s assume ok: "session_init ext uid role reg_addr = Inr s"
    have "\<not> truthy uid"
    proof
      assume t: "truthy uid"
      show False
      proof (cases "x_setup ext")
        case None
        with a t ok show False by simp
      next
        case (Some e)
        then show False using ok by (simp add: session_init_def Let_def)
      qed
    qed
    then show "uid = None \<or> uid = Some []" by (cases uid) simp_all
  qed
  have c: "session_init ext uid PRIMARY reg_addr =
           (case x_setup ext of
              Some e \<Rightarrow> Inl e
            | None \<Rightarrow>
                (case init_primary ext
                        \<lparr>s_role = PRIMARY,
                         s_uid = (if truthy uid then uid else Some (x_generate_id ext)),
                         s_reg_addr = reg_addr\<rparr> of
                   Inl e \<Rightarrow> Inl e
                 | Inr s' \<Rightarrow> x_finish ext s'))"
    by (simp add: session_init_def Let_def split: option.splits)
  from a b c show ?thesis by blast
qed

text \<open>The test on concrete arguments.\<close>

lemma session_init_uid_check_examples:
  "session_init ex_session_ext (Some ''rp.session.client.0001'') ''agent_0'' None =
     Inl (ValueError ''non-primary sessions need a UID'') \<and>
   session_init ex_session_ext (Some ''rp.session.client.0001'') ''agent_n'' None =
     Inl (ValueError ''non-primary sessions need a UID'') \<and>
   session_init ex_session_ext (Some ''rp.session.client.0001'') ''default'' None =
     Inl (ValueError ''non-primary sessions need a UID'') \<and>
   session_init ex_session_ext None ''default'' None =
     Inr \<lparr>s_role = ''default'', s_uid = None, s_reg_addr = None\<rparr>"
  using session_init_uid_check [of "''agent_0''" ex_session_ext "Some ''rp.session.client.0001''" None]
    session_init_uid_check [of "''agent_n''" ex_session_ext "Some ''rp.session.client.0001''" None]
    session_init_uid_check [of "''default''" ex_session_ext "Some ''rp.session.client.0001''" None]
    session_init_uid_check [of "''default''" ex_session_ext None None]
  by (simp add: session_init_def ex_session_ext_def PRIMARY_def AGENT_0_def AGENT_N_def
      DEFAULT_def init_secondary_def)


subsection \<open>Raptor workers\<close>

text \<open>
  A description object that occurs twice in the bulk is prepared twice in place; that gives
  the same description as preparing it once.
\<close>

lemma prepare_worker_idem: "prepare_worker self (prepare_worker self td) = prepare_worker self td"
  by (simp add: prepare_worker_def Let_def or_else_def)

text \<open>
  Claim C10: after \<open>submit_workers\<close>, every description of the bulk has the mode
  \<open>RAPTOR_WORKER\<close>, the environment entry \<open>PYTHONUNBUFFERED\<close> equal to \<open>1\<close>, the
  arguments \<open>[raptor_file, raptor_class, uid of the master]\<close> (with \<open>''\<close> and
  \<open>DefaultWorker\<close> for an unset file and class), and the uid \<open>raptor_worker.0000\<close>
  whatever uid the caller gave, so that all descriptions of the bulk share one uid.
\<close>

theorem submit_workers_fields:
  assumes "i < length descriptions"
  shows "length (submit_workers self descriptions) = length descriptions \<and>
         td_mode (submit_workers self descriptions ! i) = RAPTOR_WORKER \<and>
         map_of (td_environment (submit_workers self descriptions ! i)) ''PYTHONUNBUFFERED''
           = Some ''1'' \<and>
         td_arguments (submit_workers self descriptions ! i) =
           [or_else (td_raptor_file (descriptions ! i)) [],
            or_else (td_raptor_class (descriptions ! i)) ''DefaultWorker'',
            r_uid self] \<and>
         td_uid (submit_workers self descriptions ! i) = Some ''raptor_worker.0000'' \<and>
         (\<forall>j < length descriptions.
            td_uid (submit_workers self descriptions ! j) =
            td_uid (submit_workers self descriptions ! i))"
  using assms
  by (simp add: submit_workers_def prepare_worker_def Let_def update_Some_unfold)

text \<open>
  Claim C10 on two descriptions, one with a uid of the caller and one with a worker file.
\<close>

theorem submit_workers_fields_witness:
  "map td_uid (submit_workers \<lparr>r_uid = ''raptor.0000''\<rparr>
       [ex_td (Some ''my_worker.0'') None, ex_td None (Some ''./worker.py'')]) =
     [Some ''raptor_worker.0000'', Some ''raptor_worker.0000''] \<and>
   map td_arguments (submit_workers \<lparr>r_uid = ''raptor.0000''\<rparr>
       [ex_td (Some ''my_worker.0'') None, ex_td None (Some ''./worker.py'')]) =
     [[[], ''DefaultWorker'', ''raptor.0000''], [''./worker.py'', ''DefaultWorker'', ''raptor.0000'']]"
  using submit_workers_fields [of 0 "[ex_td (Some ''my_worker.0'') None, ex_td None (Some ''./worker.py'')]" "\<lparr>r_uid = ''raptor.0000''\<rparr>"]
    submit_workers_fields [of 1 "[ex_td (Some ''my_worker.0'') None, ex_td None (Some ''./worker.py'')]" "\<lparr>r_uid = ''raptor.0000''\<rparr>"]
  by (simp add: submit_workers_def ex_td_def or_else_def)

end
